theory Spec2Isabelle
  imports Complex_Main
begin

section \<open>Python values, result dictionaries and the message catalogue\<close>

text \<open>
  The module \<open>smtLayer/vmUtils.py\<close> drives external commands and reports every
  outcome as a dictionary with the keys \<open>overallRC\<close>, \<open>rc\<close>, \<open>rs\<close>, \<open>errno\<close>,
  \<open>response\<close> and \<open>strError\<close>. Text is modelled by Isabelle strings (code points
  below 256). The output of a subprocess is a byte string: either one that
  \<open>bytes.decode\<close> accepts, given by its text, or one on which it raises
  \<open>UnicodeDecodeError\<close>, given by the text of that error and by what
  \<open>bytes.decode(errors='replace')\<close> makes of it.
\<close>

datatype bytes = Text string | Undecodable string string

datatype pyval =
    PNone
  | PInt int
  | PNum rat
  | PStr string
  | PBytes bytes
  | PList "string list"

datatype key = OverallRC | Rc | Rs | Errno | Response | StrError

type_synonym results = "key \<rightharpoonup> pyval"

datatype msgid =
    M0300 | M0301 | M0302 | M0303 | M0304 | M0305
  | M0311 | M0312 | M0313 | M0314 | M0315 | M0316 | M0317 | M0318 | M0319 | M0320
  | M0413 | M0414 | M0415 | M0416 | M0417 | M0421 | M0501

text \<open>
  A variable such as \<open>results\<close> holds a reference to a dictionary. The source either
  builds a dictionary of its own or binds the variable to \<open>msgs.msg[id][0]\<close>, the
  catalogue's dictionary itself, so that a later \<open>results[k] = v\<close> writes into the
  catalogue. \<open>Local d\<close> is a private dictionary with contents \<open>d\<close>;
  \<open>Shared m\<close> is the catalogue's dictionary of message \<open>m\<close>.
\<close>

datatype ref = Local results | Shared msgid

datatype exn =
  KeyError | IndexError | UnboundLocalError | UnicodeDecodeError | TypeError | ValueError

datatype cmd = Argv "string list" | Shell string

text \<open>
  What \<open>subprocess.check_output\<close> does: it returns the captured bytes, or raises
  \<open>CalledProcessError\<close> (exit status and captured bytes), \<open>TimeoutExpired\<close>,
  \<open>PermissionError\<close> (each with its \<open>str(e)\<close>), or another exception (with
  \<open>type(e).__name__\<close> and \<open>str(e)\<close>).
\<close>

datatype outcome =
    Returned bytes
  | CalledProcessError int bytes
  | TimeoutExpired string
  | PermissionError string
  | OtherException string string

datatype event =
    SysLog "pyval list"
  | PrintLn string string
  | UpdateResults results
  | Exec cmd "rat option"
  | Sleep rat
  | RecordSuccess
  | RecordFail

text \<open>
  The module \<open>msgs\<close>, the configuration \<open>zvmsdk.config\<close>, the request handle and
  \<open>vmStatus\<close> are not part of the source file. They are parameters of the model:
  \<^item> \<open>env w n c t\<close> is the outcome of the \<open>n\<close>-th subprocess started (counting from
    0) when it runs command \<open>c\<close> with timeout \<open>t\<close>; any outcome is allowed for any
    command, also a \<open>TimeoutExpired\<close> where no timeout is given, which Python never
    raises;
  \<^item> \<open>render w m args\<close> is the string \<open>msgs.msg[m][1] % args\<close>;
  \<^item> \<open>cpe_str w c n\<close> is \<open>str(e)\<close> for the \<open>CalledProcessError\<close> of command
    \<open>c\<close> with exit status \<open>n\<close>;
  \<^item> the two configured socket timeouts (\<open>None\<close> when unset);
  \<^item> \<open>catalog s m\<close> is the dictionary \<open>msgs.msg[m][0]\<close>, part of the state since
    the source writes into it;
  \<^item> the calls \<open>rh.printSysLog\<close>, \<open>rh.printLn\<close>, \<open>rh.updateResults\<close>,
    \<open>time.sleep\<close>, \<open>status.RecordSuccess\<close> and \<open>status.RecordFail\<close> are
    recorded in the trace, in order, together with every subprocess started.
  The pieces of a log line joined by \<open>+\<close> or \<open>%\<close> are kept as a list.
\<close>

record world =
  env :: "nat \<Rightarrow> cmd \<Rightarrow> rat option \<Rightarrow> outcome"
  render :: "msgid \<Rightarrow> pyval list \<Rightarrow> string"
  cpe_str :: "cmd \<Rightarrow> int \<Rightarrow> string"
  smapi_socket_long_call_timeout_seconds :: "int option"
  smapi_socket_timeout_seconds :: "int option"

record reqhandle =
  rh_userid :: string

record state =
  ncalls :: nat
  catalog :: "msgid \<Rightarrow> results"
  trace :: "event list"

definition modId :: string where
  "modId = ''VMU''"

definition printSysLog :: "pyval list \<Rightarrow> state \<Rightarrow> state" where
  "printSysLog line s = s\<lparr>trace := trace s @ [SysLog line]\<rparr>"

definition printLn :: "string \<Rightarrow> string \<Rightarrow> state \<Rightarrow> state" where
  "printLn respType line s = s\<lparr>trace := trace s @ [PrintLn respType line]\<rparr>"

definition sleep :: "rat \<Rightarrow> state \<Rightarrow> state" where
  "sleep secs s = s\<lparr>trace := trace s @ [Sleep secs]\<rparr>"

text \<open>\<open>time.sleep(secs)\<close> raises \<open>ValueError\<close> when \<open>secs\<close> is negative.\<close>

definition time_sleep :: "rat \<Rightarrow> state \<Rightarrow> exn + state" where
  "time_sleep secs s = (if secs < 0 then Inl ValueError else Inr (sleep secs s))"

definition check_output :: "world \<Rightarrow> cmd \<Rightarrow> rat option \<Rightarrow> state \<Rightarrow> outcome \<times> state" where
  "check_output w c t s =
     (env w (ncalls s) c t,
      s\<lparr>ncalls := Suc (ncalls s), trace := trace s @ [Exec c t]\<rparr>)"

definition deref :: "state \<Rightarrow> ref \<Rightarrow> results" where
  "deref s r = (case r of Local d \<Rightarrow> d | Shared m \<Rightarrow> catalog s m)"

definition getitem :: "state \<Rightarrow> ref \<Rightarrow> key \<Rightarrow> exn + pyval" where
  "getitem s r k = (case deref s r k of None \<Rightarrow> Inl KeyError | Some v \<Rightarrow> Inr v)"

definition setitem :: "ref \<Rightarrow> key \<Rightarrow> pyval \<Rightarrow> state \<Rightarrow> ref \<times> state" where
  "setitem r k v s =
     (case r of
        Local d \<Rightarrow> (Local (d(k \<mapsto> v)), s)
      | Shared m \<Rightarrow> (Shared m, s\<lparr>catalog := (catalog s)(m := (catalog s m)(k \<mapsto> v))\<rparr>))"

definition updateResults :: "ref \<Rightarrow> state \<Rightarrow> state" where
  "updateResults r s = s\<lparr>trace := trace s @ [UpdateResults (deref s r)]\<rparr>"

definition truthy :: "pyval \<Rightarrow> bool" where
  "truthy v = (case v of
       PNone \<Rightarrow> False | PInt n \<Rightarrow> n \<noteq> 0 | PNum q \<Rightarrow> q \<noteq> 0 | PStr t \<Rightarrow> t \<noteq> []
     | PBytes b \<Rightarrow> (case b of Text t \<Rightarrow> t \<noteq> [] | Undecodable _ _ \<Rightarrow> True)
     | PList l \<Rightarrow> l \<noteq> [])"

section \<open>Strings\<close>

definition newline :: char where
  "newline = CHR 0x0A"

fun split_char :: "char \<Rightarrow> string \<Rightarrow> string list" where
  "split_char c [] = [[]]"
| "split_char c (x # xs) =
     (if x = c then [] # split_char c xs
      else (case split_char c xs of
              [] \<Rightarrow> [[x]]
            | p # ps \<Rightarrow> (x # p) # ps))"

text \<open>\<open>t.split(sep, 1)\<close>: the part before the first \<open>sep\<close> and, when there
  is one, the part after it (the list has one or two elements).\<close>

fun split1 :: "string \<Rightarrow> string \<Rightarrow> string \<times> string option" where
  "split1 sep [] = ([], None)"
| "split1 sep (x # xs) =
     (if take (length sep) (x # xs) = sep then ([], Some (drop (length sep) (x # xs)))
      else (case split1 sep xs of (p, r) \<Rightarrow> (x # p, r)))"

fun join :: "string \<Rightarrow> string list \<Rightarrow> string" where
  "join sep [] = []"
| "join sep [x] = x"
| "join sep (x # y # ys) = x @ sep @ join sep (y # ys)"

definition py_space :: "char \<Rightarrow> bool" where
  "py_space c = (let n = (of_char c :: nat) in
      (9 \<le> n \<and> n \<le> 13) \<or> (28 \<le> n \<and> n \<le> 32) \<or> n = 133 \<or> n = 160)"

definition lstrip :: "string \<Rightarrow> string" where
  "lstrip t = dropWhile py_space t"

definition strip :: "string \<Rightarrow> string" where
  "strip t = rev (dropWhile py_space (rev (dropWhile py_space t)))"

fun split_ws :: "string \<Rightarrow> string \<Rightarrow> string list" where
  "split_ws cur [] = (if cur = [] then [] else [cur])"
| "split_ws cur (x # xs) =
     (if py_space x then (if cur = [] then split_ws [] xs else cur # split_ws [] xs)
      else split_ws (cur @ [x]) xs)"

definition is_digit :: "char \<Rightarrow> bool" where
  "is_digit c = (let n = (of_char c :: nat) in 48 \<le> n \<and> n \<le> 57)"

fun py_digits :: "nat \<Rightarrow> string \<Rightarrow> nat option" where
  "py_digits acc [] = None"
| "py_digits acc [c] = (if is_digit c then Some (10 * acc + (of_char c - 48)) else None)"
| "py_digits acc (c # d # ds) =
     (if is_digit c
      then (if d = CHR ''_'' then py_digits (10 * acc + (of_char c - 48)) ds
            else py_digits (10 * acc + (of_char c - 48)) (d # ds))
      else None)"

text \<open>\<open>int(t)\<close> on a string: \<open>None\<close> stands for \<open>ValueError\<close>.\<close>

definition py_int :: "string \<Rightarrow> int option" where
  "py_int t =
     (case strip t of
        [] \<Rightarrow> None
      | c # cs \<Rightarrow>
          if c = CHR ''-'' then map_option (\<lambda>n. - int n) (py_digits 0 cs)
          else if c = CHR ''+'' then map_option int (py_digits 0 cs)
          else map_option int (py_digits 0 (c # cs)))"

text \<open>
  \<open>re.search(p + '(.+?)' + c, t)\<close> for a literal \<open>p\<close> and a literal character
  \<open>c\<close>: the group of the leftmost match. The dot does not match a newline.
\<close>

fun scan_to :: "char \<Rightarrow> string \<Rightarrow> string option" where
  "scan_to c [] = None"
| "scan_to c (y # ys) =
     (if y = c then Some []
      else if y = newline then None
      else map_option (Cons y) (scan_to c ys))"

definition lazy_group :: "char \<Rightarrow> string \<Rightarrow> string option" where
  "lazy_group c t =
     (case t of
        [] \<Rightarrow> None
      | x # xs \<Rightarrow> if x = newline then None else map_option (Cons x) (scan_to c xs))"

fun re_search_group :: "string \<Rightarrow> char \<Rightarrow> string \<Rightarrow> string option" where
  "re_search_group p c [] = None"
| "re_search_group p c (x # xs) =
     (if take (length p) (x # xs) = p
      then (case lazy_group c (drop (length p) (x # xs)) of
              Some g \<Rightarrow> Some g
            | None \<Rightarrow> re_search_group p c xs)
      else re_search_group p c xs)"

text \<open>\<open>xs[i] = v\<close> on a list: a negative index counts from the end.\<close>

definition list_setitem :: "'a list \<Rightarrow> int \<Rightarrow> 'a \<Rightarrow> exn + 'a list" where
  "list_setitem xs i v =
     (if 0 \<le> i \<and> i < int (length xs) then Inr (xs[nat i := v])
      else if i < 0 \<and> - int (length xs) \<le> i then Inr (xs[nat (int (length xs) + i) := v])
      else Inl IndexError)"

fun hide :: "string list \<Rightarrow> int list \<Rightarrow> exn + string list" where
  "hide xs [] = Inr xs"
| "hide xs (i # rest) =
     (case list_setitem xs i ''<hidden>'' of
        Inl e \<Rightarrow> Inl e
      | Inr ys \<Rightarrow> hide ys rest)"


section \<open>execCmdThruIUCV\<close>

definition timeout_val :: "rat option \<Rightarrow> pyval" where
  "timeout_val t = (case t of None \<Rightarrow> PNone | Some q \<Rightarrow> PNum q)"

text \<open>Lines 115 to 125: the entry line; the words listed in \<open>hideInLog\<close> are
  masked in a list split off the command string.\<close>

definition execCmdThruIUCV_enter ::
  "string \<Rightarrow> string \<Rightarrow> int list \<Rightarrow> rat option \<Rightarrow> state \<Rightarrow> exn + state" where
  "execCmdThruIUCV_enter userid strCmd hideInLog timeout s =
     (if length hideInLog = 0
      then Inr (printSysLog [PStr ''Enter vmUtils.execCmdThruIUCV, userid: '', PStr userid,
                  PStr '' cmd: '', PStr strCmd, PStr '' timeout: '', timeout_val timeout] s)
      else (case hide (split_char CHR '' '' strCmd) hideInLog of
              Inl e \<Rightarrow> Inl e
            | Inr logCmd \<Rightarrow>
                Inr (printSysLog [PStr ''Enter vmUtils.execCmdThruIUCV, userid: '', PStr userid,
                  PStr '' cmd: '', PStr (join '' '' logCmd),
                  PStr '' timeout: '', timeout_val timeout] s)))"

definition iucv_results :: results where
  "iucv_results = [OverallRC \<mapsto> PInt 0, Rc \<mapsto> PInt 0, Rs \<mapsto> PInt 0, Errno \<mapsto> PInt 0,
                   Response \<mapsto> PList []]"

text \<open>Lines 155 to 212, after \<open>output = bytes.decode(e.output)\<close>: \<open>rc\<close> and
  \<open>rs\<close> stand for \<open>results['rc']\<close> and \<open>results['rs']\<close> of the function's own
  dictionary.\<close>

definition iucv_failed :: "world \<Rightarrow> string \<Rightarrow> string \<Rightarrow> int \<Rightarrow> string \<Rightarrow> results" where
  "iucv_failed w userid strCmd returncode output =
     (let (rc, msg) =
            (case re_search_group ''Return code '' CHR '','' output of
               None \<Rightarrow> (returncode, PList [])
             | Some g \<Rightarrow>
                 (case py_int g of
                    Some n \<Rightarrow> (n, PList [])
                  | None \<Rightarrow> (returncode,
                      PStr (render w M0311 [PStr modId, PStr userid, PStr strCmd,
                              PInt returncode, PStr g, PStr output]))));
          (rs, msg) =
            (if \<not> truthy msg
             then (case re_search_group ''Reason code '' CHR ''.'' output of
                     None \<Rightarrow> (0, msg)
                   | Some g \<Rightarrow>
                       (case py_int g of
                          Some n \<Rightarrow> (n, msg)
                        | None \<Rightarrow> (0,
                            PStr (render w M0312 [PStr modId, PStr userid, PStr strCmd,
                                    PInt rc, PStr g, PStr output]))))
             else (0, msg));
          args = [PStr modId, PStr userid, PStr strCmd, PInt rc, PInt rs, PStr output];
          msg =
            (if truthy msg then msg
             else if rc = 1 then PStr (render w M0313 args)
             else if rc = 2 then PStr (render w M0314 args)
             else if rc = 4 then PStr (render w M0315 args)
             else if rc = 8 then PStr (render w M0316 args)
             else if rc = 16 then PStr (render w M0317 args)
             else if rc = 32 then PList (map (\<lambda>c. [c]) (render w M0318 args))
             else PStr (render w M0319 args))
      in iucv_results(OverallRC \<mapsto> PInt 2, Rc \<mapsto> PInt rc, Rs \<mapsto> PInt rs, Response \<mapsto> msg))"

text \<open>Lines 140 to 229: the \<open>try\<close> statement. Its handlers are tried in the order
  written, so a \<open>TimeoutExpired\<close> is taken by the first one (line 148).\<close>

definition execCmdThruIUCV_try ::
  "world \<Rightarrow> string \<Rightarrow> string \<Rightarrow> rat option \<Rightarrow> state \<Rightarrow> (exn + ref) \<times> state" where
  "execCmdThruIUCV_try w userid strCmd timeout s =
     (let cmd = Argv [''sudo'', ''/opt/zthin/bin/IUCV/iucvclnt'', userid, strCmd];
          (oc, s1) = check_output w cmd timeout s;
          other = (\<lambda>name err.
             let (r, s2) = setitem (Shared M0421) Response
                   (PStr (render w M0421 [PStr modId, PStr strCmd, PStr name, PStr err])) s1
             in (Inr r, s2))
      in case oc of
           Returned out \<Rightarrow>
             (case out of
                Text t \<Rightarrow> (Inr (Local (iucv_results(Response \<mapsto> PStr t))), s1)
              | Undecodable err _ \<Rightarrow> other ''UnicodeDecodeError'' err)
         | TimeoutExpired err \<Rightarrow>
             (let s2 = printSysLog [PStr ''Timeout exception in vmUtils.execCmdThruIUCV''] s1;
                  (r, s3) = setitem (Shared M0501) Response
                    (PStr (render w M0501 [PStr modId, PStr strCmd, PStr ''TimeoutExpired'',
                             PStr err])) s2
              in (Inr r, s3))
         | CalledProcessError returncode out \<Rightarrow>
             (case out of
                Text output \<Rightarrow> (Inr (Local (iucv_failed w userid strCmd returncode output)), s1)
              | Undecodable _ _ \<Rightarrow> (Inl UnicodeDecodeError, s1))
         | PermissionError err \<Rightarrow>
             (Inr (Local (iucv_results(OverallRC \<mapsto> PInt 3, Rc \<mapsto> PInt 64, Rs \<mapsto> PInt 408,
                     Response \<mapsto> PStr (render w M0320 [PStr modId, PStr userid, PStr strCmd,
                                       PInt 64, PInt 408, PStr err])))), s1)
         | OtherException name err \<Rightarrow> other name err)"

definition execCmdThruIUCV ::
  "world \<Rightarrow> reqhandle \<Rightarrow> string \<Rightarrow> string \<Rightarrow> int list \<Rightarrow> rat option \<Rightarrow> state
     \<Rightarrow> (exn + ref) \<times> state" where
  "execCmdThruIUCV w rh userid strCmd hideInLog timeout s =
     (case execCmdThruIUCV_enter userid strCmd hideInLog timeout s of
        Inl e \<Rightarrow> (Inl e, s)
      | Inr s1 \<Rightarrow>
          (case execCmdThruIUCV_try w userid strCmd timeout s1 of
             (Inl e, s2) \<Rightarrow> (Inl e, s2)
           | (Inr results, s2) \<Rightarrow>
               (case getitem s2 results Rc of
                  Inl e \<Rightarrow> (Inl e, s2)
                | Inr rc \<Rightarrow>
                    (Inr results,
                     printSysLog [PStr ''Exit vmUtils.execCmdThruIUCV, rc: '', rc] s2))))"

section \<open>disableEnableDisk\<close>

text \<open>\<open>v == n\<close> for an integer literal \<open>n\<close>.\<close>

definition py_eq :: "pyval \<Rightarrow> int \<Rightarrow> bool" where
  "py_eq v n = (v = PInt n \<or> v = PNum (of_int n))"

definition item_eq :: "state \<Rightarrow> ref \<Rightarrow> key \<Rightarrow> int \<Rightarrow> exn + bool" where
  "item_eq s r k n = (case getitem s r k of Inl e \<Rightarrow> Inl e | Inr v \<Rightarrow> Inr (py_eq v n))"

text \<open>\<open>a and b\<close>: the right operand is evaluated only when the left one is true.\<close>

definition and_then :: "exn + bool \<Rightarrow> exn + bool \<Rightarrow> exn + bool" where
  "and_then a b = (case a of Inl e \<Rightarrow> Inl e | Inr t \<Rightarrow> if t then b else Inr False)"

definition chccwdev_delays :: "rat list" where
  "chccwdev_delays = [1/10, 4/10, 1, 15/10, 3, 7, 15, 32, 30, 30, 60, 60, 60, 60, 60]"

definition success_results :: results where
  "success_results = [OverallRC \<mapsto> PInt 0, Rc \<mapsto> PInt 0, Rs \<mapsto> PInt 0, Response \<mapsto> PStr []]"

definition chccwdev_cmd :: "string \<Rightarrow> string \<Rightarrow> string" where
  "chccwdev_cmd option vaddr = ''sudo /sbin/chccwdev '' @ option @ '' '' @ vaddr @ '' 2>&1''"

fun disableEnableDisk_loop ::
  "world \<Rightarrow> reqhandle \<Rightarrow> string \<Rightarrow> string \<Rightarrow> string \<Rightarrow> rat list \<Rightarrow> ref \<Rightarrow> state
     \<Rightarrow> (exn + ref) \<times> state" where
  "disableEnableDisk_loop w rh userid vaddr option [] results s = (Inr results, s)"
| "disableEnableDisk_loop w rh userid vaddr option (secs # rest) results s =
     (let strCmd = chccwdev_cmd option vaddr
      in case execCmdThruIUCV w rh userid strCmd [] None s of
           (Inl e, s1) \<Rightarrow> (Inl e, s1)
         | (Inr results1, s1) \<Rightarrow>
             (case item_eq s1 results1 OverallRC 0 of
                Inl e \<Rightarrow> (Inl e, s1)
              | Inr True \<Rightarrow> (Inr results1, s1)
              | Inr False \<Rightarrow>
                  (case and_then (item_eq s1 results1 OverallRC 2)
                          (and_then (item_eq s1 results1 Rc 8)
                            (and_then (item_eq s1 results1 Rs 1) (Inr (option = ''-d'')))) of
                     Inl e \<Rightarrow> (Inl e, s1)
                   | Inr True \<Rightarrow> (Inr (Local success_results), s1)
                   | Inr False \<Rightarrow>
                       (case time_sleep secs s1 of
                          Inl e \<Rightarrow> (Inl e, s1)
                        | Inr s2 \<Rightarrow>
                            disableEnableDisk_loop w rh userid vaddr option rest results1 s2))))"

definition disableEnableDisk ::
  "world \<Rightarrow> reqhandle \<Rightarrow> string \<Rightarrow> string \<Rightarrow> string \<Rightarrow> state \<Rightarrow> (exn + ref) \<times> state" where
  "disableEnableDisk w rh userid vaddr option s =
     (let s1 = printSysLog [PStr ''Enter vmUtils.disableEnableDisk, userid: '', PStr userid,
                  PStr '' addr: '', PStr vaddr, PStr '' option: '', PStr option] s
      in case disableEnableDisk_loop w rh userid vaddr option chccwdev_delays
                (Local success_results) s1 of
           (Inl e, s2) \<Rightarrow> (Inl e, s2)
         | (Inr results, s2) \<Rightarrow>
             (case getitem s2 results OverallRC of
                Inl e \<Rightarrow> (Inl e, s2)
              | Inr orc \<Rightarrow>
                  (Inr results,
                   printSysLog [PStr ''Exit vmUtils.disableEnableDisk, rc: '', orc] s2)))"

section \<open>waitForOSState\<close>

definition quote :: char where
  "quote = CHR 0x27"

definition ping :: string where
  "ping = ''echo '' @ [quote] @ ''ping'' @ [quote]"

text \<open>The loop of lines 1123 to 1135 over \<open>range(1, maxQueries + 1)\<close>; its value is
  \<open>stateFnd\<close>.\<close>

fun waitForOSState_loop ::
  "world \<Rightarrow> reqhandle \<Rightarrow> string \<Rightarrow> int \<Rightarrow> rat \<Rightarrow> int list \<Rightarrow> state \<Rightarrow> (exn + bool) \<times> state" where
  "waitForOSState_loop w rh desiredState maxQueries sleepSecs [] s = (Inr False, s)"
| "waitForOSState_loop w rh desiredState maxQueries sleepSecs (i # rest) s =
     (case execCmdThruIUCV w rh (rh_userid rh) ping [] None s of
        (Inl e, s1) \<Rightarrow> (Inl e, s1)
      | (Inr results, s1) \<Rightarrow>
          (case item_eq s1 results OverallRC 0 of
             Inl e \<Rightarrow> (Inl e, s1)
           | Inr reachable \<Rightarrow>
               if reachable \<and> desiredState = ''up'' then (Inr True, s1)
               else if \<not> reachable \<and> desiredState = ''down'' then (Inr True, s1)
               else if i < maxQueries
               then (case time_sleep sleepSecs s1 of
                       Inl e \<Rightarrow> (Inl e, s1)
                     | Inr s2 \<Rightarrow>
                         waitForOSState_loop w rh desiredState maxQueries sleepSecs rest s2)
               else waitForOSState_loop w rh desiredState maxQueries sleepSecs rest s1))"

definition waitForOSState ::
  "world \<Rightarrow> reqhandle \<Rightarrow> string \<Rightarrow> string \<Rightarrow> int \<Rightarrow> rat \<Rightarrow> state \<Rightarrow> (exn + ref) \<times> state" where
  "waitForOSState w rh userid desiredState maxQueries sleepSecs s =
     (let s1 = printSysLog [PStr ''Enter vmUtils.waitForOSState, userid: '', PStr userid,
                  PStr '' state: '', PStr desiredState, PStr '' maxWait: '', PInt maxQueries,
                  PStr '' sleepSecs: '', PNum sleepSecs] s
      in case waitForOSState_loop w rh desiredState maxQueries sleepSecs [1..maxQueries] s1 of
           (Inl e, s2) \<Rightarrow> (Inl e, s2)
         | (Inr stateFnd, s2) \<Rightarrow>
             (let (results, s3) =
                    (if stateFnd
                     then (Local [OverallRC \<mapsto> PInt 0, Rc \<mapsto> PInt 0, Rs \<mapsto> PInt 0], s2)
                     else (let maxWait = of_int maxQueries * sleepSecs
                           in (Shared M0413,
                               printLn ''ES'' (render w M0413 [PStr modId, PStr userid,
                                 PStr desiredState, PNum maxWait]) s2)))
              in case getitem s3 results OverallRC of
                   Inl e \<Rightarrow> (Inl e, s3)
                 | Inr orc \<Rightarrow>
                     (Inr results,
                      printSysLog [PStr ''Exit vmUtils.waitForOSState, rc: '', orc] s3)))"

section \<open>invokeSMCLI\<close>

fun is_substring :: "string \<Rightarrow> string \<Rightarrow> bool" where
  "is_substring p [] = (p = [])"
| "is_substring p (x # xs) = (take (length p) (x # xs) = p \<or> is_substring p xs)"

fun str_nat :: "nat \<Rightarrow> string" where
  "str_nat n = (if n < 10 then [''0123456789'' ! n]
                else str_nat (n div 10) @ [''0123456789'' ! (n mod 10)])"

definition str_int :: "int \<Rightarrow> string" where
  "str_int i = (if i < 0 then CHR ''-'' # str_nat (nat (- i)) else str_nat (nat i))"

text \<open>\<open>c if c else d\<close> for a configured value \<open>c\<close>: unset and 0 are false.\<close>

definition or_else :: "int option \<Rightarrow> int \<Rightarrow> int" where
  "or_else c d = (case c of None \<Rightarrow> d | Some n \<Rightarrow> if n \<noteq> 0 then n else d)"

definition DEFAULT_SMAPI_SOCKET_LONG_CALL_TIMEOUT_SECONDS :: int where
  "DEFAULT_SMAPI_SOCKET_LONG_CALL_TIMEOUT_SECONDS = 900"

definition DEFAULT_SMAPI_SOCKET_TIMEOUT_SECONDS :: int where
  "DEFAULT_SMAPI_SOCKET_TIMEOUT_SECONDS = 240"

definition smcli_results :: results where
  "smcli_results = [OverallRC \<mapsto> PInt 0, Rc \<mapsto> PInt 0, Rs \<mapsto> PInt 0, Errno \<mapsto> PInt 0,
                    Response \<mapsto> PList [], StrError \<mapsto> PStr []]"

fun getitems :: "state \<Rightarrow> ref \<Rightarrow> key list \<Rightarrow> exn + pyval list" where
  "getitems s r [] = Inr []"
| "getitems s r (k # ks) =
     (case getitem s r k of
        Inl e \<Rightarrow> Inl e
      | Inr v \<Rightarrow> (case getitems s r ks of Inl e \<Rightarrow> Inl e | Inr vs \<Rightarrow> Inr (v # vs)))"

text \<open>Lines 800 to 812: the first word of the header. The value is the dictionary that
  \<open>results\<close> is bound to afterwards, and \<open>goodHeader\<close>.\<close>

definition smcli_word1 ::
  "world \<Rightarrow> string \<Rightarrow> string \<Rightarrow> string \<Rightarrow> string \<Rightarrow> string \<Rightarrow> ref \<Rightarrow> state
     \<Rightarrow> (ref \<times> bool) \<times> state" where
  "smcli_word1 w api strCmd word h0 h1 results s =
     (let orcError = (\<lambda>goodHeader results s.
            let (results, s) = setitem results OverallRC (PInt 25) s;
                (results, s) = setitem (Shared M0302) Response
                   (PStr (render w M0302 [PStr modId, PStr api, PStr word, PStr strCmd,
                            PStr h0, PStr h1])) s
            in ((results, goodHeader), s))
      in case py_int word of
           Some n \<Rightarrow>
             (let (results, s) = setitem results OverallRC (PInt n) s
              in if n \<notin> {8, 24, 25} then orcError True results s
                 else ((results, True), s))
         | None \<Rightarrow> orcError False results s)"

text \<open>Lines 815 to 821: the second word.\<close>

definition smcli_word2 ::
  "world \<Rightarrow> string \<Rightarrow> string \<Rightarrow> string \<Rightarrow> string \<Rightarrow> string \<Rightarrow> ref \<times> bool \<Rightarrow> state
     \<Rightarrow> (ref \<times> bool) \<times> state" where
  "smcli_word2 w api strCmd word h0 h1 rg s =
     (case py_int word of
        Some n \<Rightarrow> (let (results, s) = setitem (fst rg) Rc (PInt n) s in ((results, snd rg), s))
      | None \<Rightarrow>
          (let (results, s) = setitem (Shared M0303) Response
                 (PStr (render w M0303 [PStr modId, PStr api, PStr word, PStr strCmd,
                          PStr h0, PStr h1])) s
           in ((results, False), s)))"

text \<open>Lines 825 to 836: the third word. Message 0304 is rendered with the second word
  (\<open>codes[1]\<close>), as the source has it.\<close>

definition smcli_word3 ::
  "world \<Rightarrow> string \<Rightarrow> string \<Rightarrow> string \<Rightarrow> string \<Rightarrow> string \<Rightarrow> string \<Rightarrow> ref \<times> bool \<Rightarrow> state
     \<Rightarrow> (exn + ref \<times> bool) \<times> state" where
  "smcli_word3 w api strCmd word2 word h0 h1 rg s =
     (case py_int word of
        Some word3 \<Rightarrow>
          (case item_eq s (fst rg) OverallRC 8 of
             Inl e \<Rightarrow> (Inl e, s)
           | Inr True \<Rightarrow>
               (let (results, s) = setitem (fst rg) Rs (PInt word3) s
                in (Inr (results, snd rg), s))
           | Inr False \<Rightarrow>
               (case item_eq s (fst rg) OverallRC 25 of
                  Inl e \<Rightarrow> (Inl e, s)
                | Inr True \<Rightarrow>
                    (let (results, s) = setitem (fst rg) Errno (PInt word3) s
                     in (Inr (results, snd rg), s))
                | Inr False \<Rightarrow> (Inr rg, s)))
      | None \<Rightarrow>
          (let (results, s) = setitem (Shared M0304) Response
                 (PStr (render w M0304 [PStr modId, PStr api, PStr word2, PStr strCmd,
                          PStr h0, PStr h1])) s
           in (Inr (results, False), s)))"

text \<open>Lines 773 to 845, after \<open>bytes.decode(e.output)\<close>: the handler of
  \<open>CalledProcessError\<close>. An exception raised here is not caught by the handlers that
  follow it in the same \<open>try\<close> statement. \<open>e.output\<close> is a byte string, so the test
  \<open>e.output == ''\<close> of line 776 is false.\<close>

definition smcli_failed ::
  "world \<Rightarrow> string \<Rightarrow> string \<Rightarrow> string \<Rightarrow> state \<Rightarrow> (exn + ref) \<times> state" where
  "smcli_failed w api strCmd output s =
     (let smcliResp = split1 [newline] output;
          rcHeader = split1 ''(details)'' (fst smcliResp);
          h0 = fst rcHeader;
          h1 = (case snd rcHeader of None \<Rightarrow> [] | Some t \<Rightarrow> t);
          codes = split_char CHR '' '' h0;
          parsed =
            (case codes of
               word1 # word2 # word3 # _ \<Rightarrow>
                 (let (rg, s) = smcli_word1 w api strCmd word1 h0 h1 (Local smcli_results) s;
                      (rg, s) = smcli_word2 w api strCmd word2 h0 h1 rg s
                  in smcli_word3 w api strCmd word2 word3 h0 h1 rg s)
             | _ \<Rightarrow>
                 (let (results, s) = setitem (Shared M0301) Response
                        (PStr (render w M0301 [PStr modId, PStr api, PStr strCmd,
                                 PStr h0, PStr h1])) s
                  in (Inr (results, False), s)))
      in case parsed of
           (Inl e, s) \<Rightarrow> (Inl e, s)
         | (Inr (results, goodHeader), s) \<Rightarrow>
             (let (results, s) = setitem results StrError (PStr (lstrip h1)) s
              in if goodHeader
                 then (case getitems s results [OverallRC, Rc, Rs, Errno] of
                         Inl e \<Rightarrow> (Inl e, s)
                       | Inr codes \<Rightarrow>
                           (case snd smcliResp of
                              None \<Rightarrow> (Inl IndexError, s)
                            | Some rest \<Rightarrow>
                                (let (results, s) = setitem results Response
                                       (PStr (render w M0300 ([PStr modId, PStr api] @ codes @
                                                [PStr strCmd, PStr rest]))) s
                                 in (Inr results, s))))
                 else (Inr results, s)))"

text \<open>Lines 704 to 714: the entry line. \<open>logParms = parms\<close> binds a second name to
  the caller's list, so the assignments \<open>logParms[i] = '<hidden>'\<close> change \<open>parms\<close>:
  the value is the state after the log line and the list \<open>parms\<close> is bound to.\<close>

definition invokeSMCLI_enter ::
  "reqhandle \<Rightarrow> string \<Rightarrow> string list \<Rightarrow> int list \<Rightarrow> state \<Rightarrow> exn + string list \<times> state" where
  "invokeSMCLI_enter rh api parms hideInLog s =
     (if length hideInLog = 0
      then Inr (parms,
                printSysLog [PStr ''Enter vmUtils.invokeSMCLI, userid: '', PStr (rh_userid rh),
                  PStr '', function: '', PStr api, PStr '', parms: '', PList parms] s)
      else (case hide parms hideInLog of
              Inl e \<Rightarrow> Inl e
            | Inr logParms \<Rightarrow>
                Inr (logParms,
                     printSysLog [PStr ''Enter vmUtils.invokeSMCLI, userid: '',
                       PStr (rh_userid rh), PStr '', function: '', PStr api,
                       PStr '', parms: '', PList logParms] s)))"

text \<open>Lines 732 to 753: \<open>SOCKET_LONG_CALL_APIS\<close> is the string \<open>'VMRELOCATE'\<close>, so
  \<open>api in SOCKET_LONG_CALL_APIS\<close> is a substring test.\<close>

definition invokeSMCLI_timeout ::
  "world \<Rightarrow> string \<Rightarrow> string list \<Rightarrow> state \<Rightarrow> string list \<times> state" where
  "invokeSMCLI_timeout w api parms s =
     (if is_substring api ''VMRELOCATE''
      then (let s = printSysLog [PStr ''Setting timeout for long-duration APIs...''] s;
                lgr_socket_timeput =
                  or_else (smapi_socket_long_call_timeout_seconds w)
                    (or_else (smapi_socket_timeout_seconds w)
                       DEFAULT_SMAPI_SOCKET_LONG_CALL_TIMEOUT_SECONDS);
                s = printSysLog [PStr ''long-duration timeout = '', PInt lgr_socket_timeput] s
            in (parms @ [''--timeout'', str_int lgr_socket_timeput], s))
      else (let s = printSysLog [PStr ''Setting timeout for general APIs...''] s;
                lgr_socket_timeput =
                  or_else (smapi_socket_timeout_seconds w) DEFAULT_SMAPI_SOCKET_TIMEOUT_SECONDS;
                s = printSysLog [PStr ''general timeout = '', PInt lgr_socket_timeput] s
            in (parms @ [''--timeout'', str_int lgr_socket_timeput], s)))"

definition record_status :: "event \<Rightarrow> state \<Rightarrow> state" where
  "record_status e s = s\<lparr>trace := trace s @ [e]\<rparr>"

text \<open>Lines 757 to 852: the \<open>try\<close> statement.\<close>

definition invokeSMCLI_try ::
  "world \<Rightarrow> string \<Rightarrow> string list \<Rightarrow> state \<Rightarrow> (exn + ref) \<times> state" where
  "invokeSMCLI_try w api parms s =
     (let cmd = [''sudo'', ''/opt/zthin/bin/smcli'', api, ''--addRCheader''];
          strCmd = join '' '' (cmd @ parms);
          (oc, s1) = check_output w (Argv (cmd @ parms)) None s;
          other = (\<lambda>name err.
             let (r, s2) = setitem (Shared M0305) Response
                   (PStr (render w M0305 [PStr modId, PStr strCmd, PStr name, PStr err])) s1
             in (Inr r, s2))
      in case oc of
           Returned out \<Rightarrow>
             (case snd (split1 [newline]
                     (case out of Text t \<Rightarrow> t | Undecodable _ t \<Rightarrow> t)) of
                None \<Rightarrow> other ''IndexError'' ''list index out of range''
              | Some rest \<Rightarrow>
                  (Inr (Local (smcli_results(Response \<mapsto> PStr rest, OverallRC \<mapsto> PInt 0,
                                  Rc \<mapsto> PInt 0))),
                   record_status RecordSuccess s1))
         | CalledProcessError returncode out \<Rightarrow>
             (let s2 = record_status RecordFail s1
              in case out of
                   Text output \<Rightarrow> smcli_failed w api strCmd output s2
                 | Undecodable _ _ \<Rightarrow> (Inl UnicodeDecodeError, s2))
         | TimeoutExpired err \<Rightarrow> other ''TimeoutExpired'' err
         | PermissionError err \<Rightarrow> other ''PermissionError'' err
         | OtherException name err \<Rightarrow> other name err)"

definition invokeSMCLI ::
  "world \<Rightarrow> reqhandle \<Rightarrow> string \<Rightarrow> string list \<Rightarrow> int list \<Rightarrow> state \<Rightarrow> (exn + ref) \<times> state" where
  "invokeSMCLI w rh api parms hideInLog s =
     (case invokeSMCLI_enter rh api parms hideInLog s of
        Inl e \<Rightarrow> (Inl e, s)
      | Inr (parms, s1) \<Rightarrow>
          (let (parms, s2) = invokeSMCLI_timeout w api parms s1
           in case invokeSMCLI_try w api parms s2 of
                (Inl e, s3) \<Rightarrow> (Inl e, s3)
              | (Inr results, s3) \<Rightarrow>
                  (case getitem s3 results OverallRC of
                     Inl e \<Rightarrow> (Inl e, s3)
                   | Inr orc \<Rightarrow>
                       (Inr results,
                        printSysLog [PStr ''Exit vmUtils.invokeSMCLI, rc: '', orc] s3))))"

section \<open>installFS\<close>

text \<open>The local variables of \<open>installFS\<close> that outlive a step; \<open>device\<close> is
  \<open>None\<close> as long as it has not been assigned.\<close>

record locals =
  l_results :: ref
  l_out :: pyval
  l_device :: "string option"
  l_cmd :: cmd
  l_strCmd :: string

text \<open>How the body of a \<open>try\<close> ended: normally, with a \<open>CalledProcessError\<close>, or
  with another exception (its type name and \<open>str(e)\<close>).\<close>

datatype tried = Done | Caught_CPE int bytes | Caught string string

definition caught :: "outcome \<Rightarrow> tried" where
  "caught oc =
     (case oc of
        Returned _ \<Rightarrow> Done
      | CalledProcessError returncode b \<Rightarrow> Caught_CPE returncode b
      | TimeoutExpired err \<Rightarrow> Caught ''TimeoutExpired'' err
      | PermissionError err \<Rightarrow> Caught ''PermissionError'' err
      | OtherException name err \<Rightarrow> Caught name err)"

text \<open>\<open>if isinstance(out, bytes): out = bytes.decode(out)\<close>\<close>

definition decode_out :: "pyval \<Rightarrow> tried \<times> pyval" where
  "decode_out out =
     (case out of
        PBytes b \<Rightarrow>
          (case b of
             Text t \<Rightarrow> (Done, PStr t)
           | Undecodable err _ \<Rightarrow> (Caught ''UnicodeDecodeError'' err, out))
      | _ \<Rightarrow> (Done, out))"

text \<open>\<open>out = subprocess.check_output(cmd, ...)\<close> followed by the decoding.\<close>

definition run_out :: "world \<Rightarrow> cmd \<Rightarrow> locals \<Rightarrow> state \<Rightarrow> (tried \<times> locals) \<times> state" where
  "run_out w c l s =
     (let (oc, s1) = check_output w c None s
      in case oc of
           Returned b \<Rightarrow> (let (t, out) = decode_out (PBytes b) in ((t, l\<lparr>l_out := out\<rparr>), s1))
         | _ \<Rightarrow> ((caught oc, l), s1))"

definition retry_delays :: "rat list" where
  "retry_delays = [1/10, 2/10, 3/10, 5/10, 1, 2, -1]"

text \<open>The retry loop of lines 345 to 362, 515 to 535 and 591 to 609, for any list of
  delays: it ends with \<open>break\<close> after a successful run, with the exception that leaves
  it, or with the list used up. \<open>try_num\<close> is the number of runs made before. The loop
  sleeps positive delays only, so \<open>time.sleep\<close> does not raise here.\<close>

datatype attempt = Broke bytes | Raised outcome | Exhausted

fun retry ::
  "world \<Rightarrow> cmd \<Rightarrow> string \<Rightarrow> bool \<Rightarrow> rat list \<Rightarrow> int \<Rightarrow> state \<Rightarrow> attempt \<times> state" where
  "retry w c label with_out [] try_num s = (Exhausted, s)"
| "retry w c label with_out (sleep_secs # rest) try_num s =
     (let (oc, s1) = check_output w c None s
      in case oc of
           Returned b \<Rightarrow>
             (Broke b,
              printSysLog
                (if with_out
                 then [PStr ''Run `'', PStr label, PStr ''` success with output: '', PBytes b]
                 else [PStr ''Run `'', PStr label, PStr ''` successfully.'']) s1)
         | CalledProcessError returncode b \<Rightarrow>
             if sleep_secs > 0
             then retry w c label with_out rest (try_num + 1)
                    (sleep sleep_secs
                      (printSysLog [PStr ''Num '', PInt (try_num + 1), PStr '' try `'',
                         PStr label, PStr ''` failed (retry after '', PNum sleep_secs,
                         PStr '' seconds): rc='', PInt returncode, PStr '' msg='', PBytes b] s1))
             else (Raised oc, s1)
         | _ \<Rightarrow> (Raised oc, s1))"

definition retry_decode ::
  "world \<Rightarrow> cmd \<Rightarrow> string \<Rightarrow> bool \<Rightarrow> locals \<Rightarrow> state \<Rightarrow> (tried \<times> locals) \<times> state" where
  "retry_decode w c label with_out l s =
     (let (a, s1) = retry w c label with_out retry_delays 0 s
      in case a of
           Broke b \<Rightarrow> (let (t, out) = decode_out (PBytes b) in ((t, l\<lparr>l_out := out\<rparr>), s1))
         | Exhausted \<Rightarrow> (let (t, out) = decode_out (l_out l) in ((t, l\<lparr>l_out := out\<rparr>), s1))
         | Raised oc \<Rightarrow> ((caught oc, l), s1))"

text \<open>The handlers: message 0415 for a \<open>CalledProcessError\<close>, message 0421 for any
  other exception. \<open>results = msgs.msg['0415'][0]\<close> binds \<open>results\<close> to the
  catalogue's dictionary, and \<open>results['rs'] = e.returncode\<close> writes into it.\<close>

definition handle_0415 ::
  "world \<Rightarrow> string \<Rightarrow> int \<Rightarrow> bytes \<Rightarrow> locals \<Rightarrow> state \<Rightarrow> locals \<times> state" where
  "handle_0415 w what returncode b l s =
     (let s = printLn ''ES'' (render w M0415 [PStr modId, PStr what, PInt returncode, PBytes b]) s;
          (results, s) = setitem (Shared M0415) Rs (PInt returncode) s;
          s = updateResults results s
      in (l\<lparr>l_results := results\<rparr>, s))"

definition handle_0421 ::
  "world \<Rightarrow> string \<Rightarrow> string \<Rightarrow> string \<Rightarrow> locals \<Rightarrow> state \<Rightarrow> locals \<times> state" where
  "handle_0421 w what name err l s =
     (let s = printLn ''ES'' (render w M0421 [PStr modId, PStr what, PStr name, PStr err]) s;
          s = updateResults (Shared M0421) s
      in (l\<lparr>l_results := Shared M0421\<rparr>, s))"

text \<open>\<open>' '.join(cmd)\<close>: on a string it joins the characters.\<close>

definition cmd_join :: "cmd \<Rightarrow> string" where
  "cmd_join c = (case c of Argv xs \<Rightarrow> join '' '' xs | Shell t \<Rightarrow> join '' '' (map (\<lambda>x. [x]) t))"

definition cmd_text :: "cmd \<Rightarrow> pyval" where
  "cmd_text c = (case c of Argv xs \<Rightarrow> PList xs | Shell t \<Rightarrow> PStr t)"

text \<open>Lines 336 to 375: get access to the disk.\<close>

definition fs_acquire ::
  "world \<Rightarrow> reqhandle \<Rightarrow> string \<Rightarrow> string \<Rightarrow> locals \<Rightarrow> state \<Rightarrow> (exn + locals) \<times> state" where
  "fs_acquire w rh vaddr mode l s =
     (let c = Argv [''sudo'', ''/opt/zthin/bin/linkdiskandbringonline'', rh_userid rh, vaddr, mode];
          l = l\<lparr>l_cmd := c, l_strCmd := cmd_join c\<rparr>;
          s = printSysLog [PStr ''Invoking: '', PStr (l_strCmd l)] s;
          ((t, l), s) = retry_decode w c (l_strCmd l) False l s
      in case t of
           Done \<Rightarrow> (Inr l, s)
         | Caught_CPE returncode b \<Rightarrow>
             (let (l, s) = handle_0415 w (l_strCmd l) returncode b l s in (Inr l, s))
         | Caught name err \<Rightarrow>
             (Inr (l\<lparr>l_results := Shared M0421\<rparr>),
              printLn ''ES'' (render w M0421 [PStr modId, PStr (l_strCmd l), PStr name,
                                PStr err]) s))"

text \<open>Lines 377 to 400: find the device name in the output. \<open>re.search\<close> with a string
  pattern raises \<open>TypeError\<close> on bytes.\<close>

definition fs_locate :: "world \<Rightarrow> locals \<Rightarrow> state \<Rightarrow> (exn + locals) \<times> state" where
  "fs_locate w l s =
     (case l_out l of
        PStr out \<Rightarrow>
          (case re_search_group ''Success:'' newline out of
             Some g \<Rightarrow>
               (let parts = split_ws [] g
                in if length parts > 9
                   then (Inr (l\<lparr>l_device := Some (''/dev/'' @ parts ! 9)\<rparr>), s)
                   else (let l = l\<lparr>l_strCmd := cmd_join (l_cmd l)\<rparr>;
                             s = printLn ''ES'' (render w M0416 [PStr modId, PStr ''Success:'',
                                   PInt 10, PStr (l_strCmd l), PStr out]) s;
                             s = updateResults (Shared M0416) s
                         in (Inr (l\<lparr>l_results := Shared M0416\<rparr>), s)))
           | None \<Rightarrow>
               (let l = l\<lparr>l_strCmd := cmd_join (l_cmd l)\<rparr>;
                    s = printLn ''ES'' (render w M0417 [PStr modId, PStr ''Success:'',
                          PStr (l_strCmd l), PStr out]) s;
                    s = updateResults (Shared M0417) s
                in (Inr (l\<lparr>l_results := Shared M0417\<rparr>), s)))
      | _ \<Rightarrow> (Inl TypeError, s))"

text \<open>Lines 403 to 428 (dasdfmt) and 458 to 478 (fdasd): one command on the device.\<close>

definition fs_device_cmd ::
  "world \<Rightarrow> (string \<Rightarrow> string list) \<Rightarrow> locals \<Rightarrow> state \<Rightarrow> (exn + locals) \<times> state" where
  "fs_device_cmd w argv l s =
     (case l_device l of
        None \<Rightarrow> (Inl UnboundLocalError, s)
      | Some device \<Rightarrow>
          (let c = Argv (argv device);
               l = l\<lparr>l_cmd := c, l_strCmd := cmd_join c\<rparr>;
               s = printSysLog [PStr ''Invoking: '', PStr (l_strCmd l)] s;
               ((t, l), s) = run_out w c l s
           in case t of
                Done \<Rightarrow> (Inr l, s)
              | Caught_CPE returncode b \<Rightarrow>
                  (let (l, s) = handle_0415 w (l_strCmd l) returncode b l s in (Inr l, s))
              | Caught name err \<Rightarrow>
                  (let (l, s) = handle_0421 w (l_strCmd l) name err l s in (Inr l, s))))"

definition dasdfmt_argv :: "string \<Rightarrow> string list" where
  "dasdfmt_argv device =
     [''sudo'', ''/sbin/dasdfmt'', ''-y'', ''-b'', ''4096'', ''-d'', ''cdl'', ''-v'', device]"

definition fdasd_argv :: "string \<Rightarrow> string list" where
  "fdasd_argv device = [''sudo'', ''/sbin/fdasd'', ''-a'', device]"

text \<open>Lines 431 to 455 and 552 to 576: settle the devices. The output of the command
  is dropped; in the last handler \<open>strCmd\<close> becomes \<open>" ".join(cmd)\<close> for the
  \<open>cmd\<close> of an earlier step.\<close>

definition settle_cmd :: string where
  "settle_cmd = ''which udevadm &> /dev/null && udevadm settle || udevsettle''"

definition fs_settle :: "world \<Rightarrow> locals \<Rightarrow> state \<Rightarrow> (exn + locals) \<times> state" where
  "fs_settle w l s =
     (let l = l\<lparr>l_strCmd := settle_cmd\<rparr>;
          s = printSysLog [PStr ''Invoking: '', PStr (l_strCmd l)] s;
          (oc, s) = check_output w (Shell settle_cmd) None s;
          (t, l) = (case oc of
                      Returned _ \<Rightarrow> (let (t, out) = decode_out (l_out l) in (t, l\<lparr>l_out := out\<rparr>))
                    | _ \<Rightarrow> (caught oc, l))
      in case t of
           Done \<Rightarrow> (Inr l, s)
         | Caught_CPE returncode b \<Rightarrow>
             (let (l, s) = handle_0415 w (l_strCmd l) returncode b l s in (Inr l, s))
         | Caught name err \<Rightarrow>
             (let l = l\<lparr>l_strCmd := cmd_join (l_cmd l)\<rparr>;
                  (l, s) = handle_0421 w (l_strCmd l) name err l s
              in (Inr l, s)))"

text \<open>Lines 480 to 549: the two fdisk steps of a 9336 disk, run through the shell.\<close>

definition backslash :: char where
  "backslash = CHR 0x5C"

definition fdisk_delete_cmd :: "string \<Rightarrow> string" where
  "fdisk_delete_cmd device =
     ''sudo /sbin/fdisk '' @ device @ '' << EOF'' @ [newline] @ ''g'' @ [newline] @ ''w''
       @ [newline] @ ''EOF''"

definition fdisk_create_cmd :: "string \<Rightarrow> string" where
  "fdisk_create_cmd device =
     ''sudo /sbin/fdisk '' @ device @ '' << EOF'' @ [newline] @ ''n'' @ [newline] @ ''p''
       @ [newline] @ ''1'' @ [newline] @ [newline] @ [newline] @ ''w'' @ [newline] @ ''EOF''"

definition fs_fdisk_delete :: "world \<Rightarrow> locals \<Rightarrow> state \<Rightarrow> (exn + locals) \<times> state" where
  "fs_fdisk_delete w l s =
     (case l_device l of
        None \<Rightarrow> (Inl UnboundLocalError, s)
      | Some device \<Rightarrow>
          (let text = fdisk_delete_cmd device;
               l = l\<lparr>l_cmd := Shell text\<rparr>;
               s = printSysLog [PStr ''Invoking: sudo /sbin/fdisk '', PStr device,
                     PStr ('' << EOF'' @ [backslash] @ ''nd'' @ [backslash] @ ''nw''
                             @ [backslash] @ ''nEOF '')] s;
               (oc, s) = check_output w (Shell text) None s;
               ((t, l), s) =
                 (case oc of
                    Returned b \<Rightarrow>
                      (let s = printSysLog [PStr ''Run `'', PStr text,
                                 PStr ''` success with output: '', PBytes b] s;
                           (t, out) = decode_out (PBytes b)
                       in ((t, l\<lparr>l_out := out\<rparr>), s))
                  | _ \<Rightarrow> ((caught oc, l), s))
           in case t of
                Done \<Rightarrow> (Inr l, s)
              | Caught_CPE returncode b \<Rightarrow>
                  (let (l, s) = handle_0415 w text returncode b l s in (Inr l, s))
              | Caught name err \<Rightarrow>
                  (let (l, s) = handle_0421 w text name err l s in (Inr l, s))))"

definition fs_fdisk_create :: "world \<Rightarrow> locals \<Rightarrow> state \<Rightarrow> (exn + locals) \<times> state" where
  "fs_fdisk_create w l s =
     (case l_device l of
        None \<Rightarrow> (Inl UnboundLocalError, s)
      | Some device \<Rightarrow>
          (let text = fdisk_create_cmd device;
               l = l\<lparr>l_cmd := Shell text\<rparr>;
               s = printSysLog [PStr ''Invoking: sudo /sbin/fdisk '', PStr device,
                     PStr ('' << EOF'' @ [backslash] @ ''nn'' @ [backslash] @ ''np''
                             @ [backslash] @ ''n1'' @ [backslash] @ ''n'' @ [backslash] @ ''n''
                             @ [backslash] @ ''nw'' @ [backslash] @ ''nEOF'')] s;
               ((t, l), s) = retry_decode w (Shell text) text True l s
           in case t of
                Done \<Rightarrow> (Inr l, s)
              | Caught_CPE returncode b \<Rightarrow>
                  (let (l, s) = handle_0415 w text returncode b l s in (Inr l, s))
              | Caught name err \<Rightarrow>
                  (let (l, s) = handle_0421 w text name err l s in (Inr l, s))))"

text \<open>Lines 578 to 626: install the file system on the first partition.\<close>

definition mkfs_argv :: "string \<Rightarrow> string \<Rightarrow> string list" where
  "mkfs_argv fileSystem device =
     (if fileSystem = ''swap'' then [''sudo'', ''mkswap'', device]
      else if fileSystem = ''xfs'' then [''sudo'', ''mkfs.xfs'', ''-f'', device]
      else [''sudo'', ''mkfs'', ''-F'', ''-t'', fileSystem, device])"

definition fs_mkfs :: "world \<Rightarrow> string \<Rightarrow> locals \<Rightarrow> state \<Rightarrow> (exn + locals) \<times> state" where
  "fs_mkfs w fileSystem l s =
     (case l_device l of
        None \<Rightarrow> (Inl UnboundLocalError, s)
      | Some device0 \<Rightarrow>
          (let device = device0 @ ''1'';
               c = Argv (mkfs_argv fileSystem device);
               l = l\<lparr>l_device := Some device, l_cmd := c, l_strCmd := cmd_join c\<rparr>;
               s = printSysLog [PStr ''Invoking: '', PStr (l_strCmd l)] s;
               ((t, l), s) = retry_decode w c (l_strCmd l) False l s
           in case t of
                Done \<Rightarrow>
                  (Inr l, printLn ''N'' (''File system: '' @ fileSystem @ '' is installed.'') s)
              | Caught_CPE returncode b \<Rightarrow>
                  (let (l, s) = handle_0415 w (l_strCmd l) returncode b l s in (Inr l, s))
              | Caught name err \<Rightarrow>
                  (let (l, s) = handle_0421 w (l_strCmd l) name err l s in (Inr l, s))))"

text \<open>Lines 631 to 668: flush the buffers, then give up the disk. \<open>diskAccessed\<close> is
  set to \<open>True\<close> just before, so the step always runs; the list of line 634 is built
  outside any \<open>try\<close>.\<close>

definition fs_flush :: "world \<Rightarrow> locals \<Rightarrow> state \<Rightarrow> (exn + locals) \<times> state" where
  "fs_flush w l s =
     (case l_device l of
        None \<Rightarrow> (Inl UnboundLocalError, s)
      | Some device \<Rightarrow>
          (let c = Argv [''sudo'', ''/usr/sbin/blockdev'', ''--flushbufs'', device];
               l = l\<lparr>l_cmd := c, l_strCmd := cmd_join c\<rparr>;
               s = printSysLog [PStr ''Invoking: '', PStr (l_strCmd l)] s;
               ((t, l), s) = run_out w c l s;
               warn = (\<lambda>err. printLn ''WS'' (''Executing '' @ l_strCmd l @ '' failed: '' @ err) s)
           in case t of
                Done \<Rightarrow> (Inr l, s)
              | Caught_CPE returncode b \<Rightarrow> (Inr l, warn (cpe_str w c returncode))
              | Caught name err \<Rightarrow> (Inr l, warn err)))"

definition fs_detach ::
  "world \<Rightarrow> reqhandle \<Rightarrow> string \<Rightarrow> locals \<Rightarrow> state \<Rightarrow> (exn + locals) \<times> state" where
  "fs_detach w rh vaddr l s =
     (let c = Argv [''sudo'', ''/opt/zthin/bin/offlinediskanddetach'', rh_userid rh, vaddr];
          l = l\<lparr>l_cmd := c, l_strCmd := cmd_join c\<rparr>;
          s = printSysLog [PStr ''Invoking: '', PStr (l_strCmd l)] s;
          ((t, l), s) = run_out w c l s
      in case t of
           Done \<Rightarrow> (Inr l, s)
         | Caught_CPE returncode b \<Rightarrow>
             (let (l, s) = handle_0415 w (l_strCmd l) returncode b l s in (Inr l, s))
         | Caught name err \<Rightarrow>
             (let (l, s) = handle_0421 w (l_strCmd l) name err l s in (Inr l, s)))"

text \<open>A step guarded by \<open>if results['overallRC'] == 0 and extra:\<close>.\<close>

definition guarded ::
  "bool \<Rightarrow> (locals \<Rightarrow> state \<Rightarrow> (exn + locals) \<times> state) \<Rightarrow> locals \<Rightarrow> state
     \<Rightarrow> (exn + locals) \<times> state" where
  "guarded extra step l s =
     (case item_eq s (l_results l) OverallRC 0 of
        Inl e \<Rightarrow> (Inl e, s)
      | Inr ok \<Rightarrow> if ok \<and> extra then step l s else (Inr l, s))"

fun run_steps ::
  "(locals \<Rightarrow> state \<Rightarrow> (exn + locals) \<times> state) list \<Rightarrow> locals \<Rightarrow> state
     \<Rightarrow> (exn + locals) \<times> state" where
  "run_steps [] l s = (Inr l, s)"
| "run_steps (step # steps) l s =
     (case step l s of
        (Inl e, s1) \<Rightarrow> (Inl e, s1)
      | (Inr l1, s1) \<Rightarrow> run_steps steps l1 s1)"

text \<open>The steps of lines 336 to 576, up to the point where the file system is made.\<close>

definition fs_prepare ::
  "world \<Rightarrow> reqhandle \<Rightarrow> string \<Rightarrow> string \<Rightarrow> string
     \<Rightarrow> (locals \<Rightarrow> state \<Rightarrow> (exn + locals) \<times> state) list" where
  "fs_prepare w rh vaddr mode diskType =
     [fs_acquire w rh vaddr mode,
      guarded True (fs_locate w),
      guarded (diskType = ''3390'') (fs_device_cmd w dasdfmt_argv),
      guarded (diskType = ''3390'') (fs_settle w),
      guarded (diskType = ''3390'') (fs_device_cmd w fdasd_argv),
      guarded (diskType = ''9336'') (fs_fdisk_delete w),
      guarded (diskType = ''9336'') (fs_fdisk_create w),
      guarded True (fs_settle w)]"

definition fs_release ::
  "world \<Rightarrow> reqhandle \<Rightarrow> string \<Rightarrow> (locals \<Rightarrow> state \<Rightarrow> (exn + locals) \<times> state) list" where
  "fs_release w rh vaddr = [fs_flush w, fs_detach w rh vaddr]"

definition installFS_enter ::
  "reqhandle \<Rightarrow> string \<Rightarrow> string \<Rightarrow> string \<Rightarrow> string \<Rightarrow> state \<Rightarrow> state" where
  "installFS_enter rh vaddr mode fileSystem diskType s =
     printSysLog [PStr ''Enter vmUtils.installFS, userid: '', PStr (rh_userid rh),
       PStr '', vaddr: '', PStr vaddr, PStr '', mode: '', PStr mode,
       PStr '', file system: '', PStr fileSystem, PStr '', disk type: '', PStr diskType] s"

definition installFS_locals :: locals where
  "installFS_locals =
     \<lparr>l_results = Local [OverallRC \<mapsto> PInt 0, Rc \<mapsto> PInt 0, Rs \<mapsto> PInt 0, Errno \<mapsto> PInt 0],
      l_out = PStr [], l_device = None, l_cmd = Argv [], l_strCmd = []\<rparr>"

definition installFS ::
  "world \<Rightarrow> reqhandle \<Rightarrow> string \<Rightarrow> string \<Rightarrow> string \<Rightarrow> string \<Rightarrow> state
     \<Rightarrow> (exn + ref) \<times> state" where
  "installFS w rh vaddr mode fileSystem diskType s =
     (case run_steps
             (fs_prepare w rh vaddr mode diskType
                @ [guarded True (fs_mkfs w fileSystem)]
                @ fs_release w rh vaddr)
             installFS_locals (installFS_enter rh vaddr mode fileSystem diskType s) of
        (Inl e, s1) \<Rightarrow> (Inl e, s1)
      | (Inr l, s1) \<Rightarrow>
          (case getitem s1 (l_results l) Rc of
             Inl e \<Rightarrow> (Inl e, s1)
           | Inr rc \<Rightarrow>
               (Inr (l_results l), printSysLog [PStr ''Exit vmUtils.installFS, rc: '', rc] s1)))"

section \<open>Example catalogue and worlds\<close>

definition ex_catalog :: "msgid \<Rightarrow> results" where
  "ex_catalog m =
     (if m = M0501 then [OverallRC \<mapsto> PInt 5, Rc \<mapsto> PInt 1, Rs \<mapsto> PInt 501]
      else if m = M0413 then [OverallRC \<mapsto> PInt 99, Rc \<mapsto> PInt 99, Rs \<mapsto> PInt 413]
      else if m = M0414 then [OverallRC \<mapsto> PInt 99, Rc \<mapsto> PInt 99, Rs \<mapsto> PInt 414]
      else if m = M0415 then [OverallRC \<mapsto> PInt 3, Rc \<mapsto> PInt 415]
      else if m = M0416 then [OverallRC \<mapsto> PInt 99, Rc \<mapsto> PInt 99, Rs \<mapsto> PInt 416]
      else if m = M0417 then [OverallRC \<mapsto> PInt 99, Rc \<mapsto> PInt 99, Rs \<mapsto> PInt 417]
      else if m = M0421 then [OverallRC \<mapsto> PInt 4, Rc \<mapsto> PInt 4, Rs \<mapsto> PInt 421]
      else [OverallRC \<mapsto> PInt 25, Rc \<mapsto> PInt 25, Rs \<mapsto> PInt 0])"

definition ex_world :: "(nat \<Rightarrow> cmd \<Rightarrow> rat option \<Rightarrow> outcome) \<Rightarrow> world" where
  "ex_world e = \<lparr>env = e, render = (\<lambda>m args. ''message''),
                 cpe_str = (\<lambda>c n. ''non-zero exit status''),
                 smapi_socket_long_call_timeout_seconds = None,
                 smapi_socket_timeout_seconds = None\<rparr>"

definition ex_env_timeout :: "nat \<Rightarrow> cmd \<Rightarrow> rat option \<Rightarrow> outcome" where
  "ex_env_timeout n c t = TimeoutExpired ''timed out after 5 seconds''"

definition ex_env_permission :: "nat \<Rightarrow> cmd \<Rightarrow> rat option \<Rightarrow> outcome" where
  "ex_env_permission n c t = PermissionError ''Permission denied''"

definition ex_state :: state where
  "ex_state = \<lparr>ncalls = 0, catalog = ex_catalog, trace = []\<rparr>"


definition ex_env_fail :: "int \<Rightarrow> bytes \<Rightarrow> nat \<Rightarrow> cmd \<Rightarrow> rat option \<Rightarrow> outcome" where
  "ex_env_fail returncode b n c t = CalledProcessError returncode b"

definition ex_unknown_disk :: bytes where
  "ex_unknown_disk = Text ''ERROR: Return code 8, Reason code 1.''"

definition ex_env_flaky :: "nat \<Rightarrow> bytes \<Rightarrow> nat \<Rightarrow> cmd \<Rightarrow> rat option \<Rightarrow> outcome" where
  "ex_env_flaky k b n c t = (if n < k then CalledProcessError 1 (Text ''busy'') else Returned b)"



definition ex_rh :: reqhandle where
  "ex_rh = \<lparr>rh_userid = ''LINUX001''\<rparr>"

text \<open>What a trace did to the outside world: the subprocesses started and the sleeps,
  in order.\<close>

datatype effect = Ran cmd "rat option" | Slept rat

fun effects :: "event list \<Rightarrow> effect list" where
  "effects [] = []"
| "effects (e # es) =
     (case e of
        Exec c t \<Rightarrow> Ran c t # effects es
      | Sleep secs \<Rightarrow> Slept secs # effects es
      | _ \<Rightarrow> effects es)"

text \<open>The lines given to \<open>rh.printLn\<close>, in order.\<close>

fun printed :: "event list \<Rightarrow> (string \<times> string) list" where
  "printed [] = []"
| "printed (e # es) =
     (case e of PrintLn respType line \<Rightarrow> (respType, line) # printed es | _ \<Rightarrow> printed es)"

text \<open>The command that \<open>waitForOSState\<close> probes with, as an effect.\<close>

definition probe :: "reqhandle \<Rightarrow> effect" where
  "probe rh = Ran (Argv [''sudo'', ''/opt/zthin/bin/IUCV/iucvclnt'', rh_userid rh, ping]) None"

text \<open>Two states agree when they differ at most in what was logged and printed.\<close>

definition agree :: "state \<Rightarrow> state \<Rightarrow> bool" where
  "agree s t = (ncalls s = ncalls t \<and> catalog s = catalog t
                \<and> effects (trace s) = effects (trace t))"

text \<open>How a call ended: the exception that left it, or the entries of the dictionary
  it returned, read when it returned.\<close>

definition raised :: "(exn + 'a) \<times> state \<Rightarrow> exn option" where
  "raised m = (case fst m of Inl e \<Rightarrow> Some e | Inr _ \<Rightarrow> None)"

definition returned :: "key list \<Rightarrow> (exn + ref) \<times> state \<Rightarrow> pyval option list option" where
  "returned ks m = (case fst m of Inl e \<Rightarrow> None | Inr r \<Rightarrow> Some (map (deref (snd m) r) ks))"

section \<open>What the primitives change\<close>

lemma effects_append [simp]: "effects (xs @ ys) = effects xs @ effects ys"
  by (induction xs) (simp_all split: event.splits)

lemma printSysLog_obs [simp]:
  "ncalls (printSysLog l s) = ncalls s" "catalog (printSysLog l s) = catalog s"
  "effects (trace (printSysLog l s)) = effects (trace s)"
  by (simp_all add: printSysLog_def)

lemma printLn_obs [simp]:
  "ncalls (printLn k l s) = ncalls s" "catalog (printLn k l s) = catalog s"
  "effects (trace (printLn k l s)) = effects (trace s)"
  by (simp_all add: printLn_def)

lemma sleep_obs [simp]:
  "ncalls (sleep d s) = ncalls s" "catalog (sleep d s) = catalog s"
  "effects (trace (sleep d s)) = effects (trace s) @ [Slept d]"
  by (simp_all add: sleep_def)

lemma updateResults_obs [simp]:
  "ncalls (updateResults r s) = ncalls s" "catalog (updateResults r s) = catalog s"
  "effects (trace (updateResults r s)) = effects (trace s)"
  by (simp_all add: updateResults_def)

lemma check_output_obs [simp]:
  "fst (check_output w c t s) = env w (ncalls s) c t"
  "ncalls (snd (check_output w c t s)) = Suc (ncalls s)"
  "catalog (snd (check_output w c t s)) = catalog s"
  "effects (trace (snd (check_output w c t s))) = effects (trace s) @ [Ran c t]"
  by (simp_all add: check_output_def)

lemma setitem_obs [simp]:
  "ncalls (snd (setitem r k v s)) = ncalls s"
  "effects (trace (snd (setitem r k v s))) = effects (trace s)"
  by (simp_all add: setitem_def split: ref.splits)

lemma execCmdThruIUCV_enter_nil:
  "execCmdThruIUCV_enter userid strCmd [] timeout s =
     Inr (printSysLog [PStr ''Enter vmUtils.execCmdThruIUCV, userid: '', PStr userid,
            PStr '' cmd: '', PStr strCmd, PStr '' timeout: '', timeout_val timeout] s)"
  by (simp add: execCmdThruIUCV_enter_def)

lemma execCmdThruIUCV_try_obs:
  "ncalls (snd (execCmdThruIUCV_try w userid strCmd timeout s)) = Suc (ncalls s)"
  "effects (trace (snd (execCmdThruIUCV_try w userid strCmd timeout s))) =
     effects (trace s) @ [Ran (Argv [''sudo'', ''/opt/zthin/bin/IUCV/iucvclnt'', userid, strCmd]) timeout]"
  "m \<noteq> M0501 \<Longrightarrow> m \<noteq> M0421 \<Longrightarrow>
     catalog (snd (execCmdThruIUCV_try w userid strCmd timeout s)) m = catalog s m"
  by (simp_all add: execCmdThruIUCV_try_def check_output_def printSysLog_def setitem_def Let_def
      split: outcome.splits bytes.splits)

lemma execCmdThruIUCV_obs:
  "ncalls (snd (execCmdThruIUCV w rh userid strCmd [] timeout s)) = Suc (ncalls s)"
  "effects (trace (snd (execCmdThruIUCV w rh userid strCmd [] timeout s))) =
     effects (trace s) @ [Ran (Argv [''sudo'', ''/opt/zthin/bin/IUCV/iucvclnt'', userid, strCmd]) timeout]"
  "m \<noteq> M0501 \<Longrightarrow> m \<noteq> M0421 \<Longrightarrow>
     catalog (snd (execCmdThruIUCV w rh userid strCmd [] timeout s)) m = catalog s m"
proof -
  define s1 where "s1 = printSysLog [PStr ''Enter vmUtils.execCmdThruIUCV, userid: '', PStr userid,
            PStr '' cmd: '', PStr strCmd, PStr '' timeout: '', timeout_val timeout] s"
  obtain a s2 where t: "execCmdThruIUCV_try w userid strCmd timeout s1 = (a, s2)"
    by (cases "execCmdThruIUCV_try w userid strCmd timeout s1") blast
  have n: "ncalls s2 = Suc (ncalls s)"
    using execCmdThruIUCV_try_obs(1) [of w userid strCmd timeout s1] t by (simp add: s1_def)
  have e: "effects (trace s2) = effects (trace s) @
      [Ran (Argv [''sudo'', ''/opt/zthin/bin/IUCV/iucvclnt'', userid, strCmd]) timeout]"
    using execCmdThruIUCV_try_obs(2) [of w userid strCmd timeout s1] t by (simp add: s1_def)
  have c: "m \<noteq> M0501 \<Longrightarrow> m \<noteq> M0421 \<Longrightarrow> catalog s2 m = catalog s m"
    using execCmdThruIUCV_try_obs(3) [of m w userid strCmd timeout s1] t by (simp add: s1_def)
  have unf: "execCmdThruIUCV w rh userid strCmd [] timeout s =
      (case a of Inl e \<Rightarrow> (Inl e, s2)
       | Inr results \<Rightarrow>
           (case getitem s2 results Rc of Inl e \<Rightarrow> (Inl e, s2)
            | Inr rc \<Rightarrow> (Inr results,
                printSysLog [PStr ''Exit vmUtils.execCmdThruIUCV, rc: '', rc] s2)))"
    using t by (simp add: execCmdThruIUCV_def execCmdThruIUCV_enter_nil s1_def split: sum.splits)
  show "ncalls (snd (execCmdThruIUCV w rh userid strCmd [] timeout s)) = Suc (ncalls s)"
    using n by (simp add: unf split: sum.splits)
  show "effects (trace (snd (execCmdThruIUCV w rh userid strCmd [] timeout s))) =
     effects (trace s) @ [Ran (Argv [''sudo'', ''/opt/zthin/bin/IUCV/iucvclnt'', userid, strCmd]) timeout]"
    using e by (simp add: unf split: sum.splits)
  show "m \<noteq> M0501 \<Longrightarrow> m \<noteq> M0421 \<Longrightarrow>
     catalog (snd (execCmdThruIUCV w rh userid strCmd [] timeout s)) m = catalog s m"
    using c by (simp add: unf split: sum.splits)
qed

lemma printed_append [simp]: "printed (xs @ ys) = printed xs @ printed ys"
  by (induction xs) (simp_all split: event.splits)

lemma printed_obs [simp]:
  "printed (trace (printSysLog l s)) = printed (trace s)"
  "printed (trace (printLn k line s)) = printed (trace s) @ [(k, line)]"
  "printed (trace (sleep d s)) = printed (trace s)"
  "printed (trace (updateResults r s)) = printed (trace s)"
  "printed (trace (snd (check_output w c t s))) = printed (trace s)"
  "printed (trace (snd (setitem r key v s))) = printed (trace s)"
  by (simp_all add: printSysLog_def printLn_def sleep_def updateResults_def check_output_def
      setitem_def split: ref.splits)

lemma execCmdThruIUCV_try_printed:
  "printed (trace (snd (execCmdThruIUCV_try w userid strCmd timeout s))) = printed (trace s)"
  by (simp add: execCmdThruIUCV_try_def check_output_def printSysLog_def setitem_def Let_def
      split: outcome.splits bytes.splits)

lemma execCmdThruIUCV_printed:
  "printed (trace (snd (execCmdThruIUCV w rh userid strCmd [] timeout s))) = printed (trace s)"
proof -
  define s1 where "s1 = printSysLog [PStr ''Enter vmUtils.execCmdThruIUCV, userid: '', PStr userid,
            PStr '' cmd: '', PStr strCmd, PStr '' timeout: '', timeout_val timeout] s"
  obtain a s2 where t: "execCmdThruIUCV_try w userid strCmd timeout s1 = (a, s2)"
    by (cases "execCmdThruIUCV_try w userid strCmd timeout s1") blast
  have p: "printed (trace s2) = printed (trace s)"
    using execCmdThruIUCV_try_printed [of w userid strCmd timeout s1] t by (simp add: s1_def)
  show ?thesis
    using t p
    by (simp add: execCmdThruIUCV_def execCmdThruIUCV_enter_nil s1_def split: sum.splits)
qed

section \<open>Properties of execCmdThruIUCV\<close>

lemmas exec_defs = execCmdThruIUCV_def execCmdThruIUCV_enter_def execCmdThruIUCV_try_def
  check_output_def printSysLog_def setitem_def getitem_def deref_def Let_def iucv_results_def

lemmas ex_defs = ex_world_def ex_state_def ex_catalog_def

lemma execCmdThruIUCV_enter_ok:
  assumes "\<forall>e. hide (split_char CHR '' '' strCmd) hideInLog \<noteq> Inl e"
  shows "\<exists>s1. execCmdThruIUCV_enter userid strCmd hideInLog timeout s = Inr s1
     \<and> ncalls s1 = ncalls s \<and> catalog s1 = catalog s"
  using assms by (cases "hide (split_char CHR '' '' strCmd) hideInLog")
    (simp_all add: execCmdThruIUCV_enter_def printSysLog_def)

text \<open>
  C1, as the spec states it: a timeout and a permission failure of the subprocess both
  give overallRC 3, rc 64, rs 408. The code does not do this for a timeout: the
  handler of line 148 takes every \<open>TimeoutExpired\<close> and returns the catalogue's
  dictionary of message 0501. With a catalogue whose dictionary 0501 is
  \<open>{overallRC: 5, rc: 1, rs: 501}\<close>, a command that times out returns these codes.
\<close>

theorem execCmdThruIUCV_timeout_not_408:
  "fst (execCmdThruIUCV (ex_world ex_env_timeout) \<lparr>rh_userid = ''LINUX001''\<rparr> ''LINUX001''
          ''echo ping'' [] (Some 5) ex_state) = Inr (Shared M0501)
   \<and> catalog (snd (execCmdThruIUCV (ex_world ex_env_timeout) \<lparr>rh_userid = ''LINUX001''\<rparr>
          ''LINUX001'' ''echo ping'' [] (Some 5) ex_state)) M0501 OverallRC = Some (PInt 5)
   \<and> catalog (snd (execCmdThruIUCV (ex_world ex_env_timeout) \<lparr>rh_userid = ''LINUX001''\<rparr>
          ''LINUX001'' ''echo ping'' [] (Some 5) ex_state)) M0501 Rc = Some (PInt 1)
   \<and> catalog (snd (execCmdThruIUCV (ex_world ex_env_timeout) \<lparr>rh_userid = ''LINUX001''\<rparr>
          ''LINUX001'' ''echo ping'' [] (Some 5) ex_state)) M0501 Rs = Some (PInt 501)"
  by (simp add: exec_defs ex_defs ex_env_timeout_def)

text \<open>
  C1, amended: for every command string, userid and timeout (and every list of hidden
  words whose indices are in range), a permission failure of the subprocess returns a
  dictionary with overallRC 3, rc 64, rs 408 and the rendered message 0320 as response;
  a timeout returns the catalogue's dictionary of message 0501, with the rendered
  message 0501 stored as its response (or raises \<open>KeyError\<close> at the exit log line when
  that dictionary has no \<open>rc\<close>).
\<close>

theorem execCmdThruIUCV_permission_or_timeout:
  assumes hid: "\<forall>e. hide (split_char CHR '' '' strCmd) hideInLog \<noteq> Inl e"
  shows "(env w (ncalls s) (Argv [''sudo'', ''/opt/zthin/bin/IUCV/iucvclnt'', userid, strCmd]) timeout
            = PermissionError err \<longrightarrow>
          (\<exists>d s'. execCmdThruIUCV w rh userid strCmd hideInLog timeout s = (Inr (Local d), s')
             \<and> d OverallRC = Some (PInt 3) \<and> d Rc = Some (PInt 64) \<and> d Rs = Some (PInt 408)
             \<and> d Response = Some (PStr (render w M0320
                  [PStr modId, PStr userid, PStr strCmd, PInt 64, PInt 408, PStr err]))))
       \<and> (env w (ncalls s) (Argv [''sudo'', ''/opt/zthin/bin/IUCV/iucvclnt'', userid, strCmd]) timeout
            = TimeoutExpired err \<longrightarrow>
          (\<exists>s'. execCmdThruIUCV w rh userid strCmd hideInLog timeout s =
                   (if catalog s M0501 Rc = None then Inl KeyError else Inr (Shared M0501), s')
             \<and> catalog s' M0501 = (catalog s M0501)(Response \<mapsto> PStr (render w M0501
                  [PStr modId, PStr strCmd, PStr ''TimeoutExpired'', PStr err]))))"
proof -
  obtain s1 where en: "execCmdThruIUCV_enter userid strCmd hideInLog timeout s = Inr s1"
    and n1: "ncalls s1 = ncalls s" and c1: "catalog s1 = catalog s"
    using execCmdThruIUCV_enter_ok [OF hid] by blast
  show ?thesis
    using en n1 c1
    by (auto simp: execCmdThruIUCV_def execCmdThruIUCV_try_def check_output_def printSysLog_def
        setitem_def getitem_def deref_def Let_def iucv_results_def split: option.splits)
qed

theorem execCmdThruIUCV_permission_or_timeout_witness:
  "(\<exists>d s'. execCmdThruIUCV (ex_world ex_env_permission) \<lparr>rh_userid = ''LINUX001''\<rparr> ''LINUX001''
        ''echo ping'' [] (Some 5) ex_state = (Inr (Local d), s')
      \<and> d OverallRC = Some (PInt 3) \<and> d Rc = Some (PInt 64) \<and> d Rs = Some (PInt 408))
   \<and> (\<exists>s'. execCmdThruIUCV (ex_world ex_env_timeout) \<lparr>rh_userid = ''LINUX001''\<rparr> ''LINUX001''
        ''echo ping'' [] (Some 5) ex_state = (Inr (Shared M0501), s')
      \<and> catalog s' M0501 OverallRC = Some (PInt 5))"
proof -
  have h: "\<forall>e. hide (split_char CHR '' '' ''echo ping'') [] \<noteq> Inl e" by simp
  have p: "env (ex_world ex_env_permission) (ncalls ex_state)
      (Argv [''sudo'', ''/opt/zthin/bin/IUCV/iucvclnt'', ''LINUX001'', ''echo ping'']) (Some 5)
      = PermissionError ''Permission denied''"
    by (simp add: ex_defs ex_env_permission_def)
  have t: "env (ex_world ex_env_timeout) (ncalls ex_state)
      (Argv [''sudo'', ''/opt/zthin/bin/IUCV/iucvclnt'', ''LINUX001'', ''echo ping'']) (Some 5)
      = TimeoutExpired ''timed out after 5 seconds''"
    by (simp add: ex_defs ex_env_timeout_def)
  have c: "catalog ex_state M0501 Rc \<noteq> None" "catalog ex_state M0501 OverallRC = Some (PInt 5)"
    by (simp_all add: ex_defs)
  from execCmdThruIUCV_permission_or_timeout [OF h, of "ex_world ex_env_permission" ex_state
      "''LINUX001''" "Some 5" "''Permission denied''" "\<lparr>rh_userid = ''LINUX001''\<rparr>"] p
  have 1: "\<exists>d s'. execCmdThruIUCV (ex_world ex_env_permission) \<lparr>rh_userid = ''LINUX001''\<rparr>
        ''LINUX001'' ''echo ping'' [] (Some 5) ex_state = (Inr (Local d), s')
      \<and> d OverallRC = Some (PInt 3) \<and> d Rc = Some (PInt 64) \<and> d Rs = Some (PInt 408)"
    by blast
  from execCmdThruIUCV_permission_or_timeout [OF h, of "ex_world ex_env_timeout" ex_state
      "''LINUX001''" "Some 5" "''timed out after 5 seconds''" "\<lparr>rh_userid = ''LINUX001''\<rparr>"] t c
  have 2: "\<exists>s'. execCmdThruIUCV (ex_world ex_env_timeout) \<lparr>rh_userid = ''LINUX001''\<rparr> ''LINUX001''
        ''echo ping'' [] (Some 5) ex_state = (Inr (Shared M0501), s')
      \<and> catalog s' M0501 OverallRC = Some (PInt 5)"
    by auto
  from 1 2 show ?thesis by blast
qed

section \<open>Properties of disableEnableDisk\<close>

text \<open>
  C9: at any turn of the loop of \<open>disableEnableDisk\<close>, when the remote command
  reports overallRC 2, rc 8, rs 1, option \<open>-d\<close> ends the loop at once with the success
  record (all codes 0, empty response) and without sleeping; any other option, \<open>-e\<close>
  among them, sleeps the delay of that turn (none of the delays is negative) and goes on
  with the rest of the delays, carrying the failure. When this happens at the first turn with \<open>-d\<close>, the function
  returns the success record after that single command.
\<close>

theorem disableEnableDisk_unknown_disk:
  assumes call: "execCmdThruIUCV w rh userid (chccwdev_cmd option vaddr) [] None s = (Inr r, s1)"
    and codes: "deref s1 r OverallRC = Some (PInt 2)" "deref s1 r Rc = Some (PInt 8)"
               "deref s1 r Rs = Some (PInt 1)"
    and secs: "0 \<le> secs"
  shows "disableEnableDisk_loop w rh userid vaddr option (secs # rest) r0 s =
           (if option = ''-d'' then (Inr (Local success_results), s1)
            else disableEnableDisk_loop w rh userid vaddr option rest r (sleep secs s1))
         \<and> (option = ''-d''
              \<and> s = printSysLog [PStr ''Enter vmUtils.disableEnableDisk, userid: '', PStr userid,
                        PStr '' addr: '', PStr vaddr, PStr '' option: '', PStr option] s0
            \<longrightarrow> disableEnableDisk w rh userid vaddr option s0 =
                  (Inr (Local success_results),
                   printSysLog [PStr ''Exit vmUtils.disableEnableDisk, rc: '', PInt 0] s1))"
proof -
  have step: "disableEnableDisk_loop w rh userid vaddr option (x # xs) r1 s =
           (if option = ''-d'' then (Inr (Local success_results), s1)
            else disableEnableDisk_loop w rh userid vaddr option xs r (sleep x s1))"
    if "0 \<le> x" for x xs r1
    using call codes that
    by (simp add: item_eq_def getitem_def and_then_def py_eq_def time_sleep_def)
  have fn: "disableEnableDisk w rh userid vaddr option s0 =
                  (Inr (Local success_results),
                   printSysLog [PStr ''Exit vmUtils.disableEnableDisk, rc: '', PInt 0] s1)"
    if d: "option = ''-d''"
      and s: "s = printSysLog [PStr ''Enter vmUtils.disableEnableDisk, userid: '', PStr userid,
                        PStr '' addr: '', PStr vaddr, PStr '' option: '', PStr option] s0"
  proof -
    have "disableEnableDisk_loop w rh userid vaddr option chccwdev_delays
            (Local success_results) s = (Inr (Local success_results), s1)"
      unfolding chccwdev_delays_def using step [of "1/10"] d by simp
    then show ?thesis
      unfolding disableEnableDisk_def Let_def s [symmetric]
      by (simp add: getitem_def deref_def success_results_def)
  qed
  show ?thesis using step [OF secs] fn by blast
qed

lemma ex_unknown_disk_call:
  "fst (execCmdThruIUCV (ex_world (ex_env_fail 1 ex_unknown_disk)) ex_rh ''LINUX001''
         (chccwdev_cmd opt ''0100'') [] None s)
   = Inr (Local (iucv_results(OverallRC \<mapsto> PInt 2, Rc \<mapsto> PInt 8, Rs \<mapsto> PInt 1,
           Response \<mapsto> PStr ''message'')))"
  by (simp add: exec_defs ex_world_def ex_env_fail_def ex_unknown_disk_def iucv_failed_def
     py_int_def strip_def py_space_def is_digit_def truthy_def lazy_group_def newline_def
     split: prod.splits)

theorem disableEnableDisk_unknown_disk_witness:
  "returned [OverallRC, Rc, Rs, Response]
     (disableEnableDisk (ex_world (ex_env_fail 1 ex_unknown_disk)) ex_rh ''LINUX001'' ''0100'' ''-d''
        ex_state)
   = Some [Some (PInt 0), Some (PInt 0), Some (PInt 0), Some (PStr [])]
   \<and> effects (trace (snd (disableEnableDisk (ex_world (ex_env_fail 1 ex_unknown_disk)) ex_rh
        ''LINUX001'' ''0100'' ''-d'' ex_state)))
     = [Ran (Argv [''sudo'', ''/opt/zthin/bin/IUCV/iucvclnt'', ''LINUX001'',
                   ''sudo /sbin/chccwdev -d 0100 2>&1'']) None]
   \<and> effects (trace (snd (disableEnableDisk_loop (ex_world (ex_env_fail 1 ex_unknown_disk)) ex_rh
        ''LINUX001'' ''0100'' ''-e'' [1/10] (Local success_results) ex_state)))
     = [Ran (Argv [''sudo'', ''/opt/zthin/bin/IUCV/iucvclnt'', ''LINUX001'',
                   ''sudo /sbin/chccwdev -e 0100 2>&1'']) None, Slept (1/10)]
   \<and> returned [OverallRC, Rc, Rs]
        (disableEnableDisk_loop (ex_world (ex_env_fail 1 ex_unknown_disk)) ex_rh
           ''LINUX001'' ''0100'' ''-e'' [1/10] (Local success_results) ex_state)
     = Some [Some (PInt 2), Some (PInt 8), Some (PInt 1)]"
proof -
  let ?W = "ex_world (ex_env_fail 1 ex_unknown_disk)"
  let ?D = "iucv_results(OverallRC \<mapsto> PInt 2, Rc \<mapsto> PInt 8, Rs \<mapsto> PInt 1,
              Response \<mapsto> PStr ''message'')"
  define s0 where "s0 = printSysLog [PStr ''Enter vmUtils.disableEnableDisk, userid: '',
      PStr ''LINUX001'', PStr '' addr: '', PStr ''0100'', PStr '' option: '', PStr ''-d''] ex_state"
  define s1 where "s1 = snd (execCmdThruIUCV ?W ex_rh ''LINUX001'' (chccwdev_cmd ''-d'' ''0100'')
      [] None s0)"
  define s2 where "s2 = snd (execCmdThruIUCV ?W ex_rh ''LINUX001'' (chccwdev_cmd ''-e'' ''0100'')
      [] None ex_state)"
  have c1: "execCmdThruIUCV ?W ex_rh ''LINUX001'' (chccwdev_cmd ''-d'' ''0100'') [] None s0
      = (Inr (Local ?D), s1)"
    by (simp add: prod_eq_iff ex_unknown_disk_call s1_def)
  have c2: "execCmdThruIUCV ?W ex_rh ''LINUX001'' (chccwdev_cmd ''-e'' ''0100'') [] None ex_state
      = (Inr (Local ?D), s2)"
    by (simp add: prod_eq_iff ex_unknown_disk_call s2_def)
  have d: "deref s (Local ?D) OverallRC = Some (PInt 2)" "deref s (Local ?D) Rc = Some (PInt 8)"
    "deref s (Local ?D) Rs = Some (PInt 1)" for s
    by (simp_all add: deref_def)
  have e1: "effects (trace s1) = [Ran (Argv [''sudo'', ''/opt/zthin/bin/IUCV/iucvclnt'',
      ''LINUX001'', chccwdev_cmd ''-d'' ''0100'']) None]"
    by (simp add: s1_def s0_def execCmdThruIUCV_obs ex_state_def)
  have e2: "effects (trace s2) = [Ran (Argv [''sudo'', ''/opt/zthin/bin/IUCV/iucvclnt'',
      ''LINUX001'', chccwdev_cmd ''-e'' ''0100'']) None]"
    by (simp add: s2_def execCmdThruIUCV_obs ex_state_def)
  have p: "(0::rat) \<le> 1/10" by simp
  from disableEnableDisk_unknown_disk [OF c1 d p, of "[]" "Local success_results" ex_state]
  have f: "disableEnableDisk ?W ex_rh ''LINUX001'' ''0100'' ''-d'' ex_state =
      (Inr (Local success_results),
       printSysLog [PStr ''Exit vmUtils.disableEnableDisk, rc: '', PInt 0] s1)"
    by (simp add: s0_def)
  from disableEnableDisk_unknown_disk [OF c2 d p, of "[]" "Local success_results" ex_state]
  have l: "disableEnableDisk_loop ?W ex_rh ''LINUX001'' ''0100'' ''-e'' [1/10]
      (Local success_results) ex_state = (Inr (Local ?D), sleep (1/10) s2)"
    by simp
  show ?thesis
    unfolding f l
    by (simp add: returned_def deref_def success_results_def e1 e2 chccwdev_cmd_def)
qed

section \<open>Properties of waitForOSState\<close>

lemma waitForOSState_loop_step:
  assumes "execCmdThruIUCV w rh (rh_userid rh) ping [] None s = (Inr r, s1)"
    and "item_eq s1 r OverallRC 0 = Inr reach"
    and "\<not> (reach \<and> desiredState = ''up'')" "\<not> (\<not> reach \<and> desiredState = ''down'')"
    and "0 \<le> sleepSecs"
  shows "waitForOSState_loop w rh desiredState maxQueries sleepSecs (i # rest) s =
         waitForOSState_loop w rh desiredState maxQueries sleepSecs rest
           (if i < maxQueries then sleep sleepSecs s1 else s1)"
  using assms by (auto simp: time_sleep_def)

text \<open>
  C7: with \<open>maxQueries = 3\<close>, a sleep interval that is not negative (\<open>time.sleep\<close>
  raises on a negative one) and a probe that never reports the desired state (the
  remote echo never succeeds while waiting for \<open>up\<close>, or always succeeds while
  waiting for \<open>down\<close>), \<open>waitForOSState\<close> runs the probe exactly three times
  with a sleep of \<open>sleepSecs\<close> after the first and after the second run and none
  after the third, prints message 0413 with the maximum wait \<open>3 * sleepSecs\<close>, and
  returns the dictionary of message 0413 (the fixed timeout outcome; reading its
  \<open>overallRC\<close> for the exit log line raises \<open>KeyError\<close> if the catalogue's
  dictionary has none).
\<close>

theorem waitForOSState_three_probes:
  assumes never: "\<forall>s. \<exists>r s1 reach.
        execCmdThruIUCV w rh (rh_userid rh) ping [] None s = (Inr r, s1)
      \<and> item_eq s1 r OverallRC 0 = Inr reach
      \<and> \<not> (reach \<and> desiredState = ''up'') \<and> \<not> (\<not> reach \<and> desiredState = ''down'')"
    and nonneg: "0 \<le> sleepSecs"
  shows "effects (trace (snd (waitForOSState w rh userid desiredState 3 sleepSecs s))) =
           effects (trace s) @
           [probe rh, Slept sleepSecs, probe rh, Slept sleepSecs, probe rh]
       \<and> fst (waitForOSState w rh userid desiredState 3 sleepSecs s) =
           (if catalog s M0413 OverallRC = None then Inl KeyError else Inr (Shared M0413))
       \<and> printed (trace (snd (waitForOSState w rh userid desiredState 3 sleepSecs s))) =
           printed (trace s) @
           [(''ES'', render w M0413 [PStr modId, PStr userid, PStr desiredState,
                      PNum (3 * sleepSecs)])]"
proof -
  define s0 where "s0 = printSysLog [PStr ''Enter vmUtils.waitForOSState, userid: '', PStr userid,
                  PStr '' state: '', PStr desiredState, PStr '' maxWait: '', PInt 3,
                  PStr '' sleepSecs: '', PNum sleepSecs] s"
  let ?E = "\<lambda>s. snd (execCmdThruIUCV w rh (rh_userid rh) ping [] None s)"
  have step: "waitForOSState_loop w rh desiredState 3 sleepSecs (i # rest) t =
         waitForOSState_loop w rh desiredState 3 sleepSecs rest
           (if i < 3 then sleep sleepSecs (?E t) else ?E t)" for i rest t
  proof -
    from never obtain r s1 reach where
      "execCmdThruIUCV w rh (rh_userid rh) ping [] None t = (Inr r, s1)"
      "item_eq s1 r OverallRC 0 = Inr reach"
      "\<not> (reach \<and> desiredState = ''up'')" "\<not> (\<not> reach \<and> desiredState = ''down'')"
      by blast
    from waitForOSState_loop_step [OF this nonneg] this(1) show ?thesis by simp
  qed
  define s3 where "s3 = ?E (sleep sleepSecs (?E (sleep sleepSecs (?E s0))))"
  have loop: "waitForOSState_loop w rh desiredState 3 sleepSecs [1..3] s0 = (Inr False, s3)"
    by (simp add: step s3_def upto.simps del: waitForOSState_loop.simps(2))
  have e3: "effects (trace s3) = effects (trace s) @
           [probe rh, Slept sleepSecs, probe rh, Slept sleepSecs, probe rh]"
    by (simp add: s3_def s0_def execCmdThruIUCV_obs probe_def)
  have c3: "catalog s3 M0413 = catalog s M0413"
    by (simp add: s3_def s0_def execCmdThruIUCV_obs)
  have p3: "printed (trace s3) = printed (trace s)"
    by (simp add: s3_def s0_def execCmdThruIUCV_printed)
  show ?thesis
    unfolding waitForOSState_def Let_def s0_def [symmetric] loop
    using e3 c3 p3
    by (simp add: getitem_def deref_def split: option.splits)
qed

theorem waitForOSState_three_probes_witness:
  "effects (trace (snd (waitForOSState (ex_world ex_env_permission) ex_rh ''LINUX001'' ''up'' 3 0
      ex_state))) = [probe ex_rh, Slept 0, probe ex_rh, Slept 0, probe ex_rh]
   \<and> fst (waitForOSState (ex_world ex_env_permission) ex_rh ''LINUX001'' ''up'' 3 0 ex_state)
     = Inr (Shared M0413)
   \<and> printed (trace (snd (waitForOSState (ex_world ex_env_permission) ex_rh ''LINUX001'' ''up'' 3 0
      ex_state))) = [(''ES'', ''message'')]"
proof -
  have f: "fst (execCmdThruIUCV (ex_world ex_env_permission) ex_rh (rh_userid ex_rh) ping [] None s)
      = Inr (Local (iucv_results(OverallRC \<mapsto> PInt 3, Rc \<mapsto> PInt 64, Rs \<mapsto> PInt 408,
           Response \<mapsto> PStr ''message'')))" for s
    by (simp add: exec_defs ex_world_def ex_env_permission_def split: prod.splits)
  have never: "\<forall>s. \<exists>r s1 reach.
        execCmdThruIUCV (ex_world ex_env_permission) ex_rh (rh_userid ex_rh) ping [] None s = (Inr r, s1)
      \<and> item_eq s1 r OverallRC 0 = Inr reach
      \<and> \<not> (reach \<and> ''up'' = ''up'') \<and> \<not> (\<not> reach \<and> ''up'' = ''down'')"
  proof
    fix s
    let ?D = "iucv_results(OverallRC \<mapsto> PInt 3, Rc \<mapsto> PInt 64, Rs \<mapsto> PInt 408,
           Response \<mapsto> PStr ''message'')"
    let ?s1 = "snd (execCmdThruIUCV (ex_world ex_env_permission) ex_rh (rh_userid ex_rh) ping []
           None s)"
    have e: "execCmdThruIUCV (ex_world ex_env_permission) ex_rh (rh_userid ex_rh) ping [] None s
      = (Inr (Local ?D), ?s1)"
      by (simp add: prod_eq_iff f)
    have i: "item_eq ?s1 (Local ?D) OverallRC 0 = Inr False"
      by (simp add: item_eq_def getitem_def deref_def py_eq_def)
    show "\<exists>r s1 reach.
        execCmdThruIUCV (ex_world ex_env_permission) ex_rh (rh_userid ex_rh) ping [] None s = (Inr r, s1)
      \<and> item_eq s1 r OverallRC 0 = Inr reach
      \<and> \<not> (reach \<and> ''up'' = ''up'') \<and> \<not> (\<not> reach \<and> ''up'' = ''down'')"
      by (rule exI [of _ "Local ?D"], rule exI [of _ ?s1], rule exI [of _ False],
          intro conjI, rule e, rule i, simp_all)
  qed
  have z: "(0::rat) \<le> 0" by simp
  from waitForOSState_three_probes [OF never z, of "''LINUX001''" ex_state]
  show ?thesis
    by (simp add: ex_defs)
qed

lemma execCmdThruIUCV_try_agree:
  assumes "ncalls s = ncalls t" "catalog s = catalog t"
  shows "fst (execCmdThruIUCV_try w userid strCmd timeout s)
           = fst (execCmdThruIUCV_try w userid strCmd timeout t)
       \<and> catalog (snd (execCmdThruIUCV_try w userid strCmd timeout s))
           = catalog (snd (execCmdThruIUCV_try w userid strCmd timeout t))"
  using assms
  by (simp add: execCmdThruIUCV_try_def check_output_def printSysLog_def setitem_def Let_def
      split: outcome.splits bytes.splits)

lemma execCmdThruIUCV_agree:
  assumes "agree s t"
  shows "fst (execCmdThruIUCV w rh userid strCmd [] timeout s)
           = fst (execCmdThruIUCV w rh userid strCmd [] timeout t)
       \<and> agree (snd (execCmdThruIUCV w rh userid strCmd [] timeout s))
               (snd (execCmdThruIUCV w rh userid strCmd [] timeout t))"
proof -
  let ?line = "[PStr ''Enter vmUtils.execCmdThruIUCV, userid: '', PStr userid,
            PStr '' cmd: '', PStr strCmd, PStr '' timeout: '', timeout_val timeout]"
  obtain a s2 where ts: "execCmdThruIUCV_try w userid strCmd timeout (printSysLog ?line s) = (a, s2)"
    by (cases "execCmdThruIUCV_try w userid strCmd timeout (printSysLog ?line s)") blast
  obtain b t2 where tt: "execCmdThruIUCV_try w userid strCmd timeout (printSysLog ?line t) = (b, t2)"
    by (cases "execCmdThruIUCV_try w userid strCmd timeout (printSysLog ?line t)") blast
  from execCmdThruIUCV_try_agree [of "printSysLog ?line s" "printSysLog ?line t" w userid strCmd timeout]
    assms ts tt
  have ab: "a = b" and c: "catalog s2 = catalog t2" by (simp_all add: agree_def)
  have f: "fst (execCmdThruIUCV w rh userid strCmd [] timeout s)
           = fst (execCmdThruIUCV w rh userid strCmd [] timeout t)"
    using ts tt ab c
    by (simp add: execCmdThruIUCV_def execCmdThruIUCV_enter_nil getitem_def deref_def
        split: sum.splits ref.splits option.splits)
  have c': "catalog (snd (execCmdThruIUCV w rh userid strCmd [] timeout s))
           = catalog (snd (execCmdThruIUCV w rh userid strCmd [] timeout t))"
    using ts tt ab c
    by (simp add: execCmdThruIUCV_def execCmdThruIUCV_enter_nil getitem_def deref_def
        split: sum.splits ref.splits option.splits)
  show ?thesis
    using assms f c' by (simp add: agree_def execCmdThruIUCV_obs)
qed

lemma agree_refl [simp]: "agree s s"
  by (simp add: agree_def)

lemma agree_log [simp]:
  "agree (printSysLog l s) t = agree s t" "agree s (printSysLog l t) = agree s t"
  "agree (printLn k l' s) t = agree s t" "agree s (printLn k l' t) = agree s t"
  by (simp_all add: agree_def)

lemma agree_sleep [simp]: "agree (sleep d s) (sleep d t) = agree s t"
  by (auto simp: agree_def)

lemma agree_item_eq: "agree s t \<Longrightarrow> item_eq s r k n = item_eq t r k n"
  by (cases r) (auto simp: agree_def item_eq_def getitem_def deref_def)

lemma waitForOSState_loop_agree:
  "agree s t \<Longrightarrow>
     fst (waitForOSState_loop w rh desiredState maxQueries sleepSecs idx s)
       = fst (waitForOSState_loop w rh desiredState maxQueries sleepSecs idx t)
     \<and> agree (snd (waitForOSState_loop w rh desiredState maxQueries sleepSecs idx s))
             (snd (waitForOSState_loop w rh desiredState maxQueries sleepSecs idx t))"
proof (induction idx arbitrary: s t)
  case Nil
  then show ?case by simp
next
  case (Cons i rest)
  obtain a s1 where es: "execCmdThruIUCV w rh (rh_userid rh) ping [] None s = (a, s1)"
    by (cases "execCmdThruIUCV w rh (rh_userid rh) ping [] None s") blast
  obtain b t1 where et: "execCmdThruIUCV w rh (rh_userid rh) ping [] None t = (b, t1)"
    by (cases "execCmdThruIUCV w rh (rh_userid rh) ping [] None t") blast
  from execCmdThruIUCV_agree [OF Cons.prems, of w rh "rh_userid rh" ping None] es et
  have ab: "b = a" and ag: "agree s1 t1" by simp_all
  show ?case
  proof (cases a)
    case (Inl e)
    then show ?thesis using es et ab ag by simp
  next
    case (Inr r)
    note ie = agree_item_eq [OF ag, of r OverallRC 0]
    show ?thesis
    proof (cases "item_eq t1 r OverallRC 0")
      case (Inl e)
      then show ?thesis using es et ab ag Inr ie by simp
    next
      case reach: (Inr reach)
      have ag': "agree (sleep sleepSecs s1) (sleep sleepSecs t1)"
        using ag by simp
      show ?thesis
        using es et ab ag Inr ie reach Cons.IH [OF ag'] Cons.IH [OF ag]
        by (simp add: time_sleep_def)
    qed
  qed
qed

lemma waitForOSState_loop_probes:
  "\<exists>new. effects (trace (snd (waitForOSState_loop w rh desiredState maxQueries sleepSecs idx s)))
            = effects (trace s) @ new
         \<and> list_all (\<lambda>e. e = probe rh \<or> e = Slept sleepSecs) new"
proof (induction idx arbitrary: s)
  case Nil
  then show ?case by simp
next
  case (Cons i rest)
  obtain a s1 where es: "execCmdThruIUCV w rh (rh_userid rh) ping [] None s = (a, s1)"
    by (cases "execCmdThruIUCV w rh (rh_userid rh) ping [] None s") blast
  have e1: "effects (trace s1) = effects (trace s) @ [probe rh]"
    using execCmdThruIUCV_obs(2) [of w rh "rh_userid rh" ping None s] es by (simp add: probe_def)
  define P where "P st = (\<exists>new. effects (trace st) = effects (trace s) @ new
         \<and> list_all (\<lambda>e. e = probe rh \<or> e = Slept sleepSecs) new)" for st :: state
  have stop: "P s1"
    unfolding P_def using e1 by simp
  have go: "P (snd (waitForOSState_loop w rh desiredState maxQueries sleepSecs rest s2))"
    if "s2 = s1 \<or> s2 = sleep sleepSecs s1" for s2
  proof -
    from Cons.IH [of s2] obtain new where
      n: "effects (trace (snd (waitForOSState_loop w rh desiredState maxQueries sleepSecs rest s2)))
          = effects (trace s2) @ new"
      and l: "list_all (\<lambda>e. e = probe rh \<or> e = Slept sleepSecs) new" by blast
    from that show ?thesis
      unfolding P_def using n l e1 by auto
  qed
  have "P (snd (waitForOSState_loop w rh desiredState maxQueries sleepSecs (i # rest) s))"
  proof (cases a)
    case (Inl e)
    then show ?thesis using es stop by simp
  next
    case (Inr r)
    show ?thesis
    proof (cases "item_eq s1 r OverallRC 0")
      case (Inl e)
      then show ?thesis using es Inr stop by simp
    next
      case reach: (Inr reach)
      then show ?thesis using es Inr stop go [of s1] go [of "sleep sleepSecs s1"]
        by (simp add: time_sleep_def)
    qed
  qed
  then show ?case unfolding P_def .
qed

lemma waitForOSState_loop_first_probe:
  "\<exists>rest. effects (trace (snd (waitForOSState_loop w rh desiredState maxQueries sleepSecs
              (i # idx) s)))
            = effects (trace s) @ probe rh # rest
         \<and> list_all (\<lambda>e. e = probe rh \<or> e = Slept sleepSecs) rest"
proof -
  obtain a s1 where es: "execCmdThruIUCV w rh (rh_userid rh) ping [] None s = (a, s1)"
    by (cases "execCmdThruIUCV w rh (rh_userid rh) ping [] None s") blast
  have e1: "effects (trace s1) = effects (trace s) @ [probe rh]"
    using execCmdThruIUCV_obs(2) [of w rh "rh_userid rh" ping None s] es by (simp add: probe_def)
  define P where "P st = (\<exists>rest. effects (trace st) = effects (trace s) @ probe rh # rest
         \<and> list_all (\<lambda>e. e = probe rh \<or> e = Slept sleepSecs) rest)" for st :: state
  have stop: "P s1"
    unfolding P_def using e1 by simp
  have go: "P (snd (waitForOSState_loop w rh desiredState maxQueries sleepSecs idx s2))"
    if "s2 = s1 \<or> s2 = sleep sleepSecs s1" for s2
  proof -
    from waitForOSState_loop_probes [of w rh desiredState maxQueries sleepSecs idx s2]
    obtain new where
      n: "effects (trace (snd (waitForOSState_loop w rh desiredState maxQueries sleepSecs idx s2)))
          = effects (trace s2) @ new"
      and l: "list_all (\<lambda>e. e = probe rh \<or> e = Slept sleepSecs) new" by blast
    from that show ?thesis
      unfolding P_def using n l e1 by auto
  qed
  have "P (snd (waitForOSState_loop w rh desiredState maxQueries sleepSecs (i # idx) s))"
  proof (cases a)
    case (Inl e)
    then show ?thesis using es stop by simp
  next
    case (Inr r)
    show ?thesis
    proof (cases "item_eq s1 r OverallRC 0")
      case (Inl e)
      then show ?thesis using es Inr stop by simp
    next
      case reach: (Inr reach)
      then show ?thesis using es Inr stop go [of s1] go [of "sleep sleepSecs s1"]
        by (simp add: time_sleep_def)
    qed
  qed
  then show ?thesis unfolding P_def .
qed

text \<open>
  C10: \<open>waitForOSState\<close> starts no subprocess but the probe
  \<open>iucvclnt <rh.userid> "echo 'ping'"\<close>, addressed to the userid of the request
  handle, and sleeps only \<open>sleepSecs\<close>. With \<open>maxQueries\<close> at least 1 the probe is
  issued: it is the first thing the call does to the outside world; with \<open>maxQueries\<close>
  below 1 nothing is run. The \<open>userid\<close> argument changes neither the value returned
  nor the subprocesses, the sleeps, or the catalogue: two calls that differ in it only end
  in states that agree, so it shows in logged and printed lines only. The witness calls
  the function with an argument \<open>OTHER001\<close> on a request handle of \<open>LINUX001\<close>:
  the three probes go to \<open>LINUX001\<close>.
\<close>

theorem waitForOSState_probes_request_handle:
  "(\<exists>new. effects (trace (snd (waitForOSState w rh userid desiredState maxQueries sleepSecs s)))
            = effects (trace s) @ new
          \<and> list_all (\<lambda>e. e = probe rh \<or> e = Slept sleepSecs) new)
   \<and> (1 \<le> maxQueries \<longrightarrow>
        (\<exists>rest. effects (trace (snd (waitForOSState w rh userid desiredState maxQueries sleepSecs s)))
            = effects (trace s) @ probe rh # rest))
   \<and> (maxQueries < 1 \<longrightarrow>
        effects (trace (snd (waitForOSState w rh userid desiredState maxQueries sleepSecs s)))
            = effects (trace s))
   \<and> fst (waitForOSState w rh userid desiredState maxQueries sleepSecs s)
       = fst (waitForOSState w rh userid' desiredState maxQueries sleepSecs s)
   \<and> agree (snd (waitForOSState w rh userid desiredState maxQueries sleepSecs s))
           (snd (waitForOSState w rh userid' desiredState maxQueries sleepSecs s))"
proof -
  define enter where "enter u = printSysLog [PStr ''Enter vmUtils.waitForOSState, userid: '',
      PStr u, PStr '' state: '', PStr desiredState, PStr '' maxWait: '', PInt maxQueries,
      PStr '' sleepSecs: '', PNum sleepSecs] s" for u
  have ag1: "agree (enter userid) (enter userid')"
    by (simp add: enter_def)
  obtain a s2 where ls: "waitForOSState_loop w rh desiredState maxQueries sleepSecs
      [1..maxQueries] (enter userid) = (a, s2)"
    by (cases "waitForOSState_loop w rh desiredState maxQueries sleepSecs
      [1..maxQueries] (enter userid)") blast
  obtain b t2 where lt: "waitForOSState_loop w rh desiredState maxQueries sleepSecs
      [1..maxQueries] (enter userid') = (b, t2)"
    by (cases "waitForOSState_loop w rh desiredState maxQueries sleepSecs
      [1..maxQueries] (enter userid')") blast
  from waitForOSState_loop_agree [OF ag1, of w rh desiredState maxQueries sleepSecs
      "[1..maxQueries]"] ls lt
  have ab: "b = a" and ag2: "agree s2 t2" by simp_all
  from waitForOSState_loop_probes [of w rh desiredState maxQueries sleepSecs
      "[1..maxQueries]" "enter userid"] ls
  obtain new where n: "effects (trace s2) = effects (trace s) @ new"
    and l: "list_all (\<lambda>e. e = probe rh \<or> e = Slept sleepSecs) new"
    by (auto simp: enter_def)
  have e: "effects (trace (snd (waitForOSState w rh userid desiredState maxQueries sleepSecs s)))
      = effects (trace s2)"
    using ls
    by (simp add: waitForOSState_def Let_def enter_def [symmetric] getitem_def deref_def
        split: sum.splits option.splits)
  have first: "\<exists>rest. effects (trace s2) = effects (trace s) @ probe rh # rest"
    if m: "1 \<le> maxQueries"
  proof -
    have u: "[1..maxQueries] = 1 # [2..maxQueries]"
      using m by (simp add: upto_rec1)
    from waitForOSState_loop_first_probe [of w rh desiredState maxQueries sleepSecs 1
        "[2..maxQueries]" "enter userid"] ls
    show ?thesis
      unfolding u [symmetric] by (auto simp: enter_def)
  qed
  have none: "effects (trace s2) = effects (trace s)" if m: "maxQueries < 1"
  proof -
    have u: "[1..maxQueries] = []" using m by simp
    from ls show ?thesis unfolding u by (auto simp: enter_def)
  qed
  have c: "catalog s2 = catalog t2" "ncalls s2 = ncalls t2"
      "effects (trace s2) = effects (trace t2)"
    using ag2 by (simp_all add: agree_def)
  have f: "fst (waitForOSState w rh userid desiredState maxQueries sleepSecs s)
       = fst (waitForOSState w rh userid' desiredState maxQueries sleepSecs s)"
    using ls lt ab c
    by (simp add: waitForOSState_def Let_def enter_def [symmetric] getitem_def deref_def
        split: sum.splits option.splits)
  have g: "agree (snd (waitForOSState w rh userid desiredState maxQueries sleepSecs s))
           (snd (waitForOSState w rh userid' desiredState maxQueries sleepSecs s))"
    using ls lt ab c
    by (simp add: waitForOSState_def Let_def enter_def [symmetric] getitem_def deref_def agree_def
        split: sum.splits option.splits)
  have 1: "\<exists>new. effects (trace (snd (waitForOSState w rh userid desiredState maxQueries sleepSecs s)))
            = effects (trace s) @ new
          \<and> list_all (\<lambda>e. e = probe rh \<or> e = Slept sleepSecs) new"
    using e n l by auto
  show ?thesis
    using 1 first none f g unfolding e by blast
qed

theorem waitForOSState_probes_request_handle_witness:
  "rh_userid ex_rh \<noteq> ''OTHER001''
   \<and> effects (trace (snd (waitForOSState (ex_world ex_env_permission) ex_rh ''OTHER001'' ''up'' 3 5
        ex_state)))
     = [Ran (Argv [''sudo'', ''/opt/zthin/bin/IUCV/iucvclnt'', ''LINUX001'', ping]) None, Slept 5,
        Ran (Argv [''sudo'', ''/opt/zthin/bin/IUCV/iucvclnt'', ''LINUX001'', ping]) None, Slept 5,
        Ran (Argv [''sudo'', ''/opt/zthin/bin/IUCV/iucvclnt'', ''LINUX001'', ping]) None]
   \<and> (\<exists>rest. effects (trace (snd (waitForOSState (ex_world ex_env_permission) ex_rh ''OTHER001''
          ''up'' 3 5 ex_state)))
        = Ran (Argv [''sudo'', ''/opt/zthin/bin/IUCV/iucvclnt'', ''LINUX001'', ping]) None # rest)
   \<and> fst (waitForOSState (ex_world ex_env_permission) ex_rh ''OTHER001'' ''up'' 3 5 ex_state)
     = fst (waitForOSState (ex_world ex_env_permission) ex_rh ''LINUX001'' ''up'' 3 5 ex_state)
   \<and> agree (snd (waitForOSState (ex_world ex_env_permission) ex_rh ''OTHER001'' ''up'' 3 5 ex_state))
           (snd (waitForOSState (ex_world ex_env_permission) ex_rh ''LINUX001'' ''up'' 3 5 ex_state))"
proof -
  have m: "(1::int) \<le> 3" by simp
  have ev: "effects (trace (snd (waitForOSState (ex_world ex_env_permission) ex_rh ''OTHER001''
        ''up'' 3 5 ex_state)))
     = [Ran (Argv [''sudo'', ''/opt/zthin/bin/IUCV/iucvclnt'', ''LINUX001'', ping]) None, Slept 5,
        Ran (Argv [''sudo'', ''/opt/zthin/bin/IUCV/iucvclnt'', ''LINUX001'', ping]) None, Slept 5,
        Ran (Argv [''sudo'', ''/opt/zthin/bin/IUCV/iucvclnt'', ''LINUX001'', ping]) None]"
    by (simp add: waitForOSState_def exec_defs item_eq_def py_eq_def time_sleep_def sleep_def
        printLn_def ex_defs ex_env_permission_def ex_rh_def upto.simps)
  from waitForOSState_probes_request_handle [of "ex_world ex_env_permission" ex_rh "''OTHER001''"
      "''up''" 3 5 ex_state "''LINUX001''"] m
  have th: "(\<exists>rest. effects (trace (snd (waitForOSState (ex_world ex_env_permission) ex_rh ''OTHER001''
          ''up'' 3 5 ex_state)))
        = Ran (Argv [''sudo'', ''/opt/zthin/bin/IUCV/iucvclnt'', ''LINUX001'', ping]) None # rest)
   \<and> fst (waitForOSState (ex_world ex_env_permission) ex_rh ''OTHER001'' ''up'' 3 5 ex_state)
     = fst (waitForOSState (ex_world ex_env_permission) ex_rh ''LINUX001'' ''up'' 3 5 ex_state)
   \<and> agree (snd (waitForOSState (ex_world ex_env_permission) ex_rh ''OTHER001'' ''up'' 3 5 ex_state))
           (snd (waitForOSState (ex_world ex_env_permission) ex_rh ''LINUX001'' ''up'' 3 5 ex_state))"
    by (simp add: probe_def ex_rh_def ex_state_def)
  have ne: "rh_userid ex_rh \<noteq> ''OTHER001''" by (simp add: ex_rh_def)
  from ne ev th show ?thesis by blast
qed

section \<open>Properties of invokeSMCLI\<close>

lemmas base_defs = check_output_def printSysLog_def printLn_def sleep_def updateResults_def
  setitem_def getitem_def deref_def item_eq_def py_eq_def Let_def newline_def modId_def

lemmas int_defs = py_int_def strip_def lstrip_def py_space_def is_digit_def

lemmas smcli_defs = invokeSMCLI_def invokeSMCLI_enter_def invokeSMCLI_timeout_def
  invokeSMCLI_try_def smcli_failed_def smcli_word1_def smcli_word2_def smcli_word3_def
  smcli_results_def record_status_def or_else_def str_int_def
  DEFAULT_SMAPI_SOCKET_TIMEOUT_SECONDS_def DEFAULT_SMAPI_SOCKET_LONG_CALL_TIMEOUT_SECONDS_def

text \<open>
  C2: the spec says that hidden parameters are masked in the log line only and that the
  command run is the one that would be run with an empty \<open>hideInLog\<close>. The code masks
  the caller's list itself (\<open>logParms = parms\<close> is a second name for it, not a copy),
  and the command is built from that list afterwards. With parameters
  \<open>['-T', 'LINUX001', '-p', 'secret']\<close> the subprocess gets \<open><hidden>\<close> in place of
  \<open>secret\<close> when \<open>hideInLog = [3]\<close>, and \<open>secret\<close> when \<open>hideInLog = []\<close>.
\<close>

theorem invokeSMCLI_runs_masked_parms:
  "effects (trace (snd (invokeSMCLI
      (ex_world (ex_env_fail 1 (Text (''8 4 12 (details) disk busy'' @ [newline]))))
      ex_rh ''Image_Create_DM'' [''-T'', ''LINUX001'', ''-p'', ''secret''] [3] ex_state)))
   = [Ran (Argv [''sudo'', ''/opt/zthin/bin/smcli'', ''Image_Create_DM'', ''--addRCheader'',
                 ''-T'', ''LINUX001'', ''-p'', ''<hidden>'', ''--timeout'', ''240'']) None]
   \<and> effects (trace (snd (invokeSMCLI
      (ex_world (ex_env_fail 1 (Text (''8 4 12 (details) disk busy'' @ [newline]))))
      ex_rh ''Image_Create_DM'' [''-T'', ''LINUX001'', ''-p'', ''secret''] [] ex_state)))
   = [Ran (Argv [''sudo'', ''/opt/zthin/bin/smcli'', ''Image_Create_DM'', ''--addRCheader'',
                 ''-T'', ''LINUX001'', ''-p'', ''secret'', ''--timeout'', ''240'']) None]"
  by (simp add: smcli_defs int_defs base_defs ex_defs ex_env_fail_def ex_rh_def list_setitem_def)

text \<open>
  C4: the spec says that a failing command whose first output line is
  \<open>8 4 12 (details) disk busy\<close> gives a record with overallRC 8, rc 4, rs 12. When that
  line is the whole output (no newline follows it), the header is decoded and then
  line 845 reads \<open>smcliResp[1]\<close>, which does not exist: \<open>IndexError\<close> leaves
  \<open>invokeSMCLI\<close> and no record is returned.
\<close>

theorem invokeSMCLI_header_only_raises:
  "raised (invokeSMCLI (ex_world (ex_env_fail 1 (Text ''8 4 12 (details) disk busy'')))
      ex_rh ''Image_Disk_Create_DM'' [''-T'', ''LINUX001''] [] ex_state) = Some IndexError"
  by (simp add: raised_def smcli_defs int_defs base_defs ex_defs ex_env_fail_def ex_rh_def)

text \<open>When a newline follows the header, the handler decodes the two headers of C4 as
  the spec says, whatever follows the newline.\<close>

lemma smcli_failed_8_4_12:
  "smcli_failed w api strCmd (''8 4 12 (details) disk busy'' @ newline # rest) s =
     (Inr (Local (smcli_results(OverallRC \<mapsto> PInt 8, Rc \<mapsto> PInt 4, Rs \<mapsto> PInt 12,
        StrError \<mapsto> PStr ''disk busy'',
        Response \<mapsto> PStr (render w M0300 [PStr modId, PStr api, PInt 8, PInt 4, PInt 12, PInt 0,
           PStr strCmd, PStr rest])))), s)"
  by (simp add: smcli_failed_def smcli_word1_def smcli_word2_def smcli_word3_def
      int_defs base_defs smcli_results_def)

lemma smcli_failed_25_1_1007:
  "smcli_failed w api strCmd (''25 1 1007 (details) bad opt'' @ newline # rest) s =
     (Inr (Local (smcli_results(OverallRC \<mapsto> PInt 25, Rc \<mapsto> PInt 1, Errno \<mapsto> PInt 1007,
        StrError \<mapsto> PStr ''bad opt'',
        Response \<mapsto> PStr (render w M0300 [PStr modId, PStr api, PInt 25, PInt 1, PInt 0,
           PInt 1007, PStr strCmd, PStr rest])))), s)"
  by (simp add: smcli_failed_def smcli_word1_def smcli_word2_def smcli_word3_def
      int_defs base_defs smcli_results_def)

text \<open>
  C5: the spec says that a failing call whose first header word is an integer outside
  8, 24, 25 returns an internal-error record with overallRC 25. With the output
  \<open>9 4 12 (details) disk busy\<close> and no newline, the three words are integers, so
  \<open>goodHeader\<close> stays true, and line 845 raises \<open>IndexError\<close> as in C4: no record is
  returned.
\<close>

theorem invokeSMCLI_bad_overallRC_raises:
  "raised (invokeSMCLI (ex_world (ex_env_fail 1 (Text ''9 4 12 (details) disk busy'')))
      ex_rh ''Image_Disk_Create_DM'' [''-T'', ''LINUX001''] [] ex_state) = Some IndexError"
  by (simp add: raised_def smcli_defs int_defs base_defs ex_defs ex_env_fail_def ex_rh_def)

text \<open>When a newline follows that header, the record returned is the catalogue's
  dictionary of message 0302, bound to \<open>results\<close> after the assignment of 25: its
  \<open>overallRC\<close> is the catalogue's (25 in the example catalogue), and the second and
  third words of the header are written into it.\<close>

lemma invokeSMCLI_bad_overallRC_with_newline:
  "fst (invokeSMCLI (ex_world (ex_env_fail 1 (Text (''9 4 12 (details) disk busy'' @ [newline]))))
      ex_rh ''Image_Disk_Create_DM'' [''-T'', ''LINUX001''] [] ex_state) = Inr (Shared M0302)
   \<and> returned [OverallRC, Rc, Rs, Errno]
       (invokeSMCLI (ex_world (ex_env_fail 1 (Text (''9 4 12 (details) disk busy'' @ [newline]))))
          ex_rh ''Image_Disk_Create_DM'' [''-T'', ''LINUX001''] [] ex_state)
     = Some [Some (PInt 25), Some (PInt 4), Some (PInt 0), Some (PInt 12)]"
  by (simp add: returned_def smcli_defs int_defs base_defs ex_defs ex_env_fail_def ex_rh_def)

section \<open>Properties of installFS\<close>

lemmas fs_defs = installFS_def installFS_enter_def installFS_locals_def fs_prepare_def
  fs_release_def guarded_def fs_acquire_def fs_locate_def fs_device_cmd_def fs_settle_def
  fs_fdisk_delete_def fs_fdisk_create_def fs_mkfs_def fs_flush_def fs_detach_def
  retry_decode_def retry_delays_def handle_0415_def handle_0421_def caught_def decode_out_def
  run_out_def cmd_join_def

text \<open>
  C3: the spec says that \<open>installFS\<close> returns a record on every input and that the
  release step completes even when the disk could not be acquired. When every run of
  \<open>linkdiskandbringonline\<close> exits with status 1, \<open>device\<close> is never assigned, and
  line 634, which builds the \<open>blockdev --flushbufs\<close> command outside any \<open>try\<close>,
  raises \<open>UnboundLocalError\<close>: the exception leaves \<open>installFS\<close>.
\<close>

theorem installFS_failed_acquisition_raises:
  "raised (installFS (ex_world (ex_env_fail 1 (Text ''HCPLNM108E LINUX001 0100 not linked'')))
      ex_rh ''0100'' ''W'' ''ext4'' ''3390'' ex_state) = Some UnboundLocalError"
  by (simp add: raised_def fs_defs base_defs ex_defs ex_env_fail_def ex_rh_def)

lemma retry_fail_prefix:
  assumes "\<forall>i<length P. 0 < P ! i"
    and "\<forall>i<length P. \<exists>returncode b. env w (ncalls s + i) c None = CalledProcessError returncode b"
  shows "\<exists>s'. retry w c label with_out (P @ R) n s = retry w c label with_out R (n + int (length P)) s'
           \<and> ncalls s' = ncalls s + length P \<and> catalog s' = catalog s
           \<and> effects (trace s') = effects (trace s) @ concat (map (\<lambda>d. [Ran c None, Slept d]) P)"
  using assms
proof (induction P arbitrary: s n)
  case Nil
  show ?case by (rule exI [of _ s]) simp
next
  case (Cons d P)
  from Cons.prems(2) obtain returncode b where
    e: "env w (ncalls s) c None = CalledProcessError returncode b" by fastforce
  from Cons.prems(1) have d: "0 < d" by fastforce
  define s1 where "s1 = sleep d (printSysLog [PStr ''Num '', PInt (n + 1), PStr '' try `'',
      PStr label, PStr ''` failed (retry after '', PNum d,
      PStr '' seconds): rc='', PInt returncode, PStr '' msg='', PBytes b]
      (snd (check_output w c None s)))"
  have unf: "retry w c label with_out ((d # P) @ R) n s = retry w c label with_out (P @ R) (n + 1) s1"
    using e d by (simp add: s1_def split: prod.splits) (simp add: check_output_def)
  have n1: "ncalls s1 = Suc (ncalls s)" and c1: "catalog s1 = catalog s"
    and e1: "effects (trace s1) = effects (trace s) @ [Ran c None, Slept d]"
    by (simp_all add: s1_def)
  have p1: "\<forall>i<length P. 0 < P ! i" using Cons.prems(1) by fastforce
  have p2: "\<forall>i<length P. \<exists>returncode b. env w (ncalls s1 + i) c None = CalledProcessError returncode b"
    using Cons.prems(2) n1 by fastforce
  from Cons.IH [OF p1 p2, of "n + 1"] obtain s' where
    r: "retry w c label with_out (P @ R) (n + 1) s1 = retry w c label with_out R (n + 1 + int (length P)) s'"
    and n': "ncalls s' = ncalls s1 + length P" and c': "catalog s' = catalog s1"
    and e': "effects (trace s') = effects (trace s1) @ concat (map (\<lambda>d. [Ran c None, Slept d]) P)"
    by blast
  have eq: "n + 1 + int (length P) = n + int (length (d # P))" by simp
  have 1: "retry w c label with_out ((d # P) @ R) n s
      = retry w c label with_out R (n + int (length (d # P))) s'"
    unfolding unf r eq ..
  have 2: "ncalls s' = ncalls s + length (d # P)" using n' n1 by simp
  have 3: "catalog s' = catalog s" using c' c1 by simp
  have 4: "effects (trace s') = effects (trace s) @ concat (map (\<lambda>d. [Ran c None, Slept d]) (d # P))"
    using e' e1 by simp
  show ?case
    using 1 2 3 4 by blast
qed

lemma retry_until_success:
  assumes k: "k < length S"
    and pos: "\<forall>i<k. 0 < S ! i"
    and fails: "\<forall>i<k. \<exists>returncode b. env w (ncalls s + i) c None = CalledProcessError returncode b"
    and ok: "env w (ncalls s + k) c None = Returned b"
  shows "fst (retry w c label with_out S n s) = Broke b
       \<and> ncalls (snd (retry w c label with_out S n s)) = ncalls s + k + 1
       \<and> catalog (snd (retry w c label with_out S n s)) = catalog s
       \<and> effects (trace (snd (retry w c label with_out S n s))) =
           effects (trace s) @ concat (map (\<lambda>d. [Ran c None, Slept d]) (take k S)) @ [Ran c None]"
proof -
  have S: "S = take k S @ (S ! k # drop (Suc k) S)"
    using k by (simp add: id_take_nth_drop)
  have lk: "length (take k S) = k" using k by simp
  have "\<forall>i<length (take k S). 0 < take k S ! i" using pos k by simp
  moreover have "\<forall>i<length (take k S). \<exists>returncode b.
      env w (ncalls s + i) c None = CalledProcessError returncode b" using fails k by simp
  ultimately obtain s' where
    r: "retry w c label with_out (take k S @ (S ! k # drop (Suc k) S)) n s
        = retry w c label with_out (S ! k # drop (Suc k) S) (n + int (length (take k S))) s'"
    and n: "ncalls s' = ncalls s + length (take k S)" and c: "catalog s' = catalog s"
    and e: "effects (trace s') = effects (trace s) @ concat (map (\<lambda>d. [Ran c None, Slept d]) (take k S))"
    using retry_fail_prefix [where P = "take k S" and w = w and s = s and c = c and label = label
        and with_out = with_out and R = "S ! k # drop (Suc k) S" and n = n] by blast
  have "retry w c label with_out S n s
      = retry w c label with_out (S ! k # drop (Suc k) S) (n + int (length (take k S))) s'"
    using r S by simp
  then show ?thesis
    using ok n c e lk
    by (simp add: check_output_def printSysLog_def split: prod.splits)
qed

lemma retry_delays_positive: "\<forall>i<6. 0 < retry_delays ! i"
  by (simp add: retry_delays_def eval_nat_numeral All_less_Suc)

text \<open>
  C6: the retry loop used by the disk-link acquisition and by the file system creation
  runs over the delays 0.1, 0.2, 0.3, 0.5, 1, 2, -1. When the command of the step fails
  (exits with a non-zero status) on its first \<open>k\<close> runs, \<open>k < 7\<close>, and then
  succeeds (exits with status 0 and output that decodes), the step runs the command
  exactly \<open>k + 1\<close> times, sleeps the first \<open>k\<close> delays in their order, one after
  each failed run, and ends without an error: \<open>results\<close> is left as it was.
\<close>

theorem installFS_retry_until_success:
  assumes k: "k < length retry_delays"
    and fails: "\<forall>i<k. \<exists>returncode b. env w (ncalls s + i) c None = CalledProcessError returncode b"
    and ok: "env w (ncalls s + k) c None = Returned (Text t)"
  shows "(c = Argv [''sudo'', ''/opt/zthin/bin/linkdiskandbringonline'', rh_userid rh, vaddr, mode]
          \<longrightarrow> (\<exists>l'. fst (fs_acquire w rh vaddr mode l s) = Inr l'
                  \<and> l_results l' = l_results l \<and> l_out l' = PStr t)
            \<and> effects (trace (snd (fs_acquire w rh vaddr mode l s))) =
                effects (trace s)
                  @ concat (map (\<lambda>d. [Ran c None, Slept d]) (take k retry_delays)) @ [Ran c None])
       \<and> (l_device l = Some device \<and> c = Argv (mkfs_argv fileSystem (device @ ''1''))
          \<longrightarrow> (\<exists>l'. fst (fs_mkfs w fileSystem l s) = Inr l'
                  \<and> l_results l' = l_results l \<and> l_out l' = PStr t)
            \<and> effects (trace (snd (fs_mkfs w fileSystem l s))) =
                effects (trace s)
                  @ concat (map (\<lambda>d. [Ran c None, Slept d]) (take k retry_delays)) @ [Ran c None])"
proof -
  have pos: "\<forall>i<k. 0 < retry_delays ! i"
    using k retry_delays_positive by (simp add: retry_delays_def)
  have loop: "fst (retry w c label with_out retry_delays n (printSysLog line s)) = Broke (Text t)
       \<and> effects (trace (snd (retry w c label with_out retry_delays n (printSysLog line s)))) =
           effects (trace s)
             @ concat (map (\<lambda>d. [Ran c None, Slept d]) (take k retry_delays)) @ [Ran c None]"
    for label with_out n line
    using retry_until_success [where k = k and S = retry_delays and s = "printSysLog line s"
        and w = w and c = c and b = "Text t" and label = label and with_out = with_out and n = n]
      k pos fails ok by simp
  have rd: "retry_decode w c label with_out l0 (printSysLog line s) =
      ((Done, l0\<lparr>l_out := PStr t\<rparr>),
       snd (retry w c label with_out retry_delays 0 (printSysLog line s)))"
    for label with_out line and l0 :: locals
    using loop [of label with_out 0 line]
    by (cases "retry w c label with_out retry_delays 0 (printSysLog line s)")
       (simp add: retry_decode_def decode_out_def)
  have acq: "(\<exists>l'. fst (fs_acquire w rh vaddr mode l s) = Inr l'
                  \<and> l_results l' = l_results l \<and> l_out l' = PStr t)
            \<and> effects (trace (snd (fs_acquire w rh vaddr mode l s))) =
                effects (trace s)
                  @ concat (map (\<lambda>d. [Ran c None, Slept d]) (take k retry_delays)) @ [Ran c None]"
    if c: "c = Argv [''sudo'', ''/opt/zthin/bin/linkdiskandbringonline'', rh_userid rh, vaddr, mode]"
    using loop [of "cmd_join c" False 0  "[PStr ''Invoking: '', PStr (cmd_join c)]"]
    by (simp add: fs_acquire_def Let_def c [symmetric] rd)
  have mk: "(\<exists>l'. fst (fs_mkfs w fileSystem l s) = Inr l'
                  \<and> l_results l' = l_results l \<and> l_out l' = PStr t)
            \<and> effects (trace (snd (fs_mkfs w fileSystem l s))) =
                effects (trace s)
                  @ concat (map (\<lambda>d. [Ran c None, Slept d]) (take k retry_delays)) @ [Ran c None]"
    if d: "l_device l = Some device" and c: "c = Argv (mkfs_argv fileSystem (device @ ''1''))"
    using loop [of "cmd_join c" False 0  "[PStr ''Invoking: '', PStr (cmd_join c)]"]
    by (simp add: fs_mkfs_def Let_def d c [symmetric] rd)
  show ?thesis
    using acq mk by blast
qed

theorem installFS_retry_until_success_witness:
  "effects (trace (snd (fs_acquire (ex_world (ex_env_flaky 2 (Text ''ok''))) ex_rh ''0100'' ''W''
      installFS_locals ex_state)))
    = [Ran (Argv [''sudo'', ''/opt/zthin/bin/linkdiskandbringonline'', ''LINUX001'', ''0100'', ''W'']) None,
       Slept (1/10),
       Ran (Argv [''sudo'', ''/opt/zthin/bin/linkdiskandbringonline'', ''LINUX001'', ''0100'', ''W'']) None,
       Slept (2/10),
       Ran (Argv [''sudo'', ''/opt/zthin/bin/linkdiskandbringonline'', ''LINUX001'', ''0100'', ''W'']) None]
   \<and> (\<exists>l'. fst (fs_acquire (ex_world (ex_env_flaky 2 (Text ''ok''))) ex_rh ''0100'' ''W''
          installFS_locals ex_state) = Inr l'
        \<and> l_results l' = l_results installFS_locals \<and> l_out l' = PStr ''ok'')
   \<and> effects (trace (snd (fs_mkfs (ex_world (ex_env_flaky 2 (Text ''ok''))) ''ext4''
      (installFS_locals\<lparr>l_device := Some ''/dev/dasdh''\<rparr>) ex_state)))
    = [Ran (Argv [''sudo'', ''mkfs'', ''-F'', ''-t'', ''ext4'', ''/dev/dasdh1'']) None,
       Slept (1/10),
       Ran (Argv [''sudo'', ''mkfs'', ''-F'', ''-t'', ''ext4'', ''/dev/dasdh1'']) None,
       Slept (2/10),
       Ran (Argv [''sudo'', ''mkfs'', ''-F'', ''-t'', ''ext4'', ''/dev/dasdh1'']) None]
   \<and> (\<exists>l'. fst (fs_mkfs (ex_world (ex_env_flaky 2 (Text ''ok''))) ''ext4''
          (installFS_locals\<lparr>l_device := Some ''/dev/dasdh''\<rparr>) ex_state) = Inr l'
        \<and> l_results l' = l_results installFS_locals \<and> l_out l' = PStr ''ok'')"
proof -
  let ?W = "ex_world (ex_env_flaky 2 (Text ''ok''))"
  have k: "2 < length retry_delays" by (simp add: retry_delays_def)
  have f: "\<forall>i<2. \<exists>returncode b. env ?W (ncalls ex_state + i) c None = CalledProcessError returncode b"
    for c by (simp add: ex_world_def ex_env_flaky_def ex_state_def)
  have o: "env ?W (ncalls ex_state + 2) c None = Returned (Text ''ok'')" for c
    by (simp add: ex_world_def ex_env_flaky_def ex_state_def)
  have t: "take 2 retry_delays = [1/10, 2/10]" by (simp add: retry_delays_def)
  from installFS_retry_until_success [OF k f o,
      of "Argv [''sudo'', ''/opt/zthin/bin/linkdiskandbringonline'', ''LINUX001'', ''0100'', ''W'']"
         ex_rh "''0100''" "''W''" installFS_locals]
  have 1: "(\<exists>l'. fst (fs_acquire ?W ex_rh ''0100'' ''W'' installFS_locals ex_state) = Inr l'
        \<and> l_results l' = l_results installFS_locals \<and> l_out l' = PStr ''ok'')
     \<and> effects (trace (snd (fs_acquire ?W ex_rh ''0100'' ''W'' installFS_locals ex_state)))
    = [Ran (Argv [''sudo'', ''/opt/zthin/bin/linkdiskandbringonline'', ''LINUX001'', ''0100'', ''W'']) None,
       Slept (1/10),
       Ran (Argv [''sudo'', ''/opt/zthin/bin/linkdiskandbringonline'', ''LINUX001'', ''0100'', ''W'']) None,
       Slept (2/10),
       Ran (Argv [''sudo'', ''/opt/zthin/bin/linkdiskandbringonline'', ''LINUX001'', ''0100'', ''W'']) None]"
    by (simp add: t ex_rh_def ex_state_def)
  from installFS_retry_until_success [OF k f o,
      of "Argv [''sudo'', ''mkfs'', ''-F'', ''-t'', ''ext4'', ''/dev/dasdh1'']"
         ex_rh "''0100''" "''W''" "installFS_locals\<lparr>l_device := Some ''/dev/dasdh''\<rparr>"
         "''/dev/dasdh''" "''ext4''"]
  have 2: "(\<exists>l'. fst (fs_mkfs ?W ''ext4'' (installFS_locals\<lparr>l_device := Some ''/dev/dasdh''\<rparr>)
          ex_state) = Inr l'
        \<and> l_results l' = l_results installFS_locals \<and> l_out l' = PStr ''ok'')
     \<and> effects (trace (snd (fs_mkfs ?W ''ext4''
      (installFS_locals\<lparr>l_device := Some ''/dev/dasdh''\<rparr>) ex_state)))
    = [Ran (Argv [''sudo'', ''mkfs'', ''-F'', ''-t'', ''ext4'', ''/dev/dasdh1'']) None,
       Slept (1/10),
       Ran (Argv [''sudo'', ''mkfs'', ''-F'', ''-t'', ''ext4'', ''/dev/dasdh1'']) None,
       Slept (2/10),
       Ran (Argv [''sudo'', ''mkfs'', ''-F'', ''-t'', ''ext4'', ''/dev/dasdh1'']) None]"
    by (simp add: t ex_state_def mkfs_argv_def)
  from 1 2 show ?thesis by blast
qed










end
